theory Spec2Isabelle
  imports Complex_Main
begin

unbundle bit_operations_syntax

section \<open>JavaScript primitives used by the content script\<close>

text \<open>
  The content script (\<open>content/index.ts\<close>) and its helper \<open>sanitizeGradientDirection\<close>
  (\<open>shared/utils.ts\<close>) work on strings and on numbers that are integers wherever a result
  depends on them. Strings are modelled as \<open>string\<close>; a number that may be \<open>NaN\<close> is an
  \<open>int option\<close> with \<open>None\<close> for \<open>NaN\<close>. Integers are exact in the model; a JavaScript
  number is exact up to \<open>2^53\<close>, far above every value a six-digit colour or a clamped
  angle produces. Characters are 8-bit, so white space is the ASCII white space (tab,
  line feed, vertical tab, form feed, carriage return, blank).
\<close>

subsection \<open>Strings\<close>

definition startsWith :: "string \<Rightarrow> string \<Rightarrow> bool" where
  "startsWith s p = (take (length p) s = p)"

text \<open>\<open>String.prototype.slice(a, b)\<close> for indices \<open>0 \<le> a \<le> b\<close>, clipped at the end of the string.\<close>

definition sliceStr :: "string \<Rightarrow> nat \<Rightarrow> nat \<Rightarrow> string" where
  "sliceStr s a b = take (b - a) (drop a s)"

definition padStart :: "nat \<Rightarrow> char \<Rightarrow> string \<Rightarrow> string" where
  "padStart n c s = replicate (n - length s) c @ s"

fun joinWith :: "string \<Rightarrow> string list \<Rightarrow> string" where
  "joinWith sep [] = []"
| "joinWith sep [x] = x"
| "joinWith sep (x # y # ys) = x @ sep @ joinWith sep (y # ys)"

text \<open>\<open>String.prototype.includes\<close>: the argument occurs somewhere as a contiguous substring.\<close>

fun strIncludes :: "string \<Rightarrow> string \<Rightarrow> bool" where
  "strIncludes [] sub = (sub = [])"
| "strIncludes (c # cs) sub = (startsWith (c # cs) sub \<or> strIncludes cs sub)"

text \<open>\<open>Array.prototype.slice(0, n)\<close>: a negative end counts from the end of the array.\<close>

definition sliceTo :: "'a list \<Rightarrow> int \<Rightarrow> 'a list" where
  "sliceTo xs n = (if n < 0 then take (nat (int (length xs) + n)) xs else take (nat n) xs)"

subsection \<open>Digits, \<open>parseInt\<close> and \<open>Number.prototype.toString\<close>\<close>

definition digitValue :: "char \<Rightarrow> nat option" where
  "digitValue c =
     (let k = (of_char c :: nat) in
      if 48 \<le> k \<and> k \<le> 57 then Some (k - 48)
      else if 97 \<le> k \<and> k \<le> 122 then Some (k - 87)
      else if 65 \<le> k \<and> k \<le> 90 then Some (k - 55)
      else None)"

definition digitNat :: "char \<Rightarrow> nat" where
  "digitNat c = (case digitValue c of Some v \<Rightarrow> v | None \<Rightarrow> 0)"

definition isRadixDigit :: "nat \<Rightarrow> char \<Rightarrow> bool" where
  "isRadixDigit R c = (case digitValue c of Some v \<Rightarrow> v < R | None \<Rightarrow> False)"

definition isWhiteSpace :: "char \<Rightarrow> bool" where
  "isWhiteSpace c = ((of_char c :: nat) \<in> {9, 10, 11, 12, 13, 32})"

definition digitsValue :: "nat \<Rightarrow> string \<Rightarrow> nat" where
  "digitsValue R z = foldl (\<lambda>acc c. acc * R + digitNat c) 0 z"

text \<open>
  \<open>parseInt(str, R)\<close> for \<open>R = 10\<close> or \<open>R = 16\<close>: leading white space is skipped, one sign
  is read, with radix 16 a prefix \<open>0x\<close> or \<open>0X\<close> is dropped, and the longest run of
  radix-\<open>R\<close> digits is the value. No digit at all gives \<open>NaN\<close>.
\<close>

definition parseInt :: "string \<Rightarrow> nat \<Rightarrow> int option" where
  "parseInt str R =
     (let s = dropWhile isWhiteSpace str;
          neg = (take 1 s = ''-'');
          s1 = (if take 1 s = ''-'' \<or> take 1 s = ''+'' then drop 1 s else s);
          s2 = (if R = 16 \<and> (take 2 s1 = ''0x'' \<or> take 2 s1 = ''0X'') then drop 2 s1 else s1);
          z = takeWhile (isRadixDigit R) s2
      in if z = [] then None
         else Some ((if neg then - 1 else 1) * int (digitsValue R z)))"

definition digitChar :: "nat \<Rightarrow> char" where
  "digitChar d = ''0123456789abcdefghijklmnopqrstuvwxyz'' ! d"

function natToString :: "nat \<Rightarrow> nat \<Rightarrow> string" where
  "natToString R n =
     (if R < 2 \<or> n < R then [digitChar n] else natToString R (n div R) @ [digitChar (n mod R)])"
  by pat_completeness auto
termination
  by (relation "measure (\<lambda>(R, n). n)") auto

declare natToString.simps [simp del]

text \<open>\<open>n.toString(R)\<close> for an integer \<open>n\<close> and a radix \<open>2 \<le> R \<le> 36\<close>.\<close>

definition numberToString :: "int \<Rightarrow> nat \<Rightarrow> string" where
  "numberToString n R = (if n < 0 then ''-'' @ natToString R (nat (- n)) else natToString R (nat n))"

subsection \<open>32-bit integer operators\<close>

text \<open>
  The bitwise operators convert their operands with \<open>ToInt32\<close>: \<open>NaN\<close> becomes \<open>0\<close>, an
  integer is wrapped into the signed 32-bit range.
\<close>

definition toInt32 :: "int option \<Rightarrow> int" where
  "toInt32 v = (case v of None \<Rightarrow> 0 | Some n \<Rightarrow> signed_take_bit 31 n)"

definition jsShr :: "int option \<Rightarrow> nat \<Rightarrow> int" where
  "jsShr v n = drop_bit n (toInt32 v)"

definition jsShl :: "int \<Rightarrow> nat \<Rightarrow> int" where
  "jsShl x n = signed_take_bit 31 (push_bit n (signed_take_bit 31 x))"

definition jsAnd :: "int option \<Rightarrow> int \<Rightarrow> int" where
  "jsAnd v m = toInt32 v AND signed_take_bit 31 m"

definition jsOr :: "int \<Rightarrow> int \<Rightarrow> int" where
  "jsOr x y = signed_take_bit 31 x OR signed_take_bit 31 y"

section \<open>Colour arithmetic\<close>

text \<open>
  \<open>adjustColor\<close> of \<open>content/index.ts\<close>: strip a leading \<open>#\<close>, parse the rest as one
  hexadecimal number, shift each channel by \<open>amount\<close>, clamp to \<open>0..255\<close>, and print the
  recombined number with six digits.
\<close>

definition adjustColor :: "string \<Rightarrow> int \<Rightarrow> string" where
  "adjustColor hex0 amount =
     (let usePound = startsWith hex0 ''#'';
          hex = (if usePound then drop 1 hex0 else hex0);
          num = parseInt hex 16;
          r = max (min 255 (jsShr num 16 + amount)) 0;
          g = max (min 255 (jsAnd (Some (jsShr num 8)) 255 + amount)) 0;
          b = max (min 255 (jsAnd num 255 + amount)) 0
      in (if usePound then ''#'' else '''') @
         padStart 6 (CHR ''0'') (numberToString (jsOr (jsOr (jsShl r 16) (jsShl g 8)) b) 16))"

text \<open>
  \<open>getTextColor\<close>: the three channels are read from fixed positions 1..2, 3..4 and 5..6;
  a channel that does not parse makes the luminance \<open>NaN\<close>, and \<open>NaN > 128\<close> is false.
  The source computes the luminance in double precision; here it is the exact real number.
\<close>

definition luminance :: "int option \<Rightarrow> int option \<Rightarrow> int option \<Rightarrow> real option" where
  "luminance r g b =
     (case (r, g, b) of
        (Some r', Some g', Some b') \<Rightarrow>
          Some (0.299 * real_of_int r' + 0.587 * real_of_int g' + 0.114 * real_of_int b')
      | _ \<Rightarrow> None)"

definition getTextColor :: "string \<Rightarrow> string" where
  "getTextColor hex =
     (let r = parseInt (sliceStr hex 1 3) 16;
          g = parseInt (sliceStr hex 3 5) 16;
          b = parseInt (sliceStr hex 5 7) 16
      in case luminance r g b of
           Some l \<Rightarrow> if l > 128 then ''#000000'' else ''#ffffff''
         | None \<Rightarrow> ''#ffffff'')"

section \<open>Gradient direction\<close>

definition isDecDigit :: "char \<Rightarrow> bool" where
  "isDecDigit c = (c \<in> set ''0123456789'')"

text \<open>
  \<open>direction.match(/^(\d+)deg$/)\<close>: a greedy run of decimal digits from the start, then
  exactly \<open>deg\<close> up to the end of the string. The letter \<open>d\<close> is no digit, so the only
  candidate for the group is the whole run of leading digits. The result is the group.
\<close>

definition matchDegrees :: "string \<Rightarrow> string option" where
  "matchDegrees direction =
     (let ds = takeWhile isDecDigit direction;
          rest = dropWhile isDecDigit direction
      in if ds \<noteq> [] \<and> rest = ''deg'' then Some ds else None)"

text \<open>
  \<open>sanitizeGradientDirection\<close> of \<open>shared/utils.ts\<close>. \<open>Math.min\<close> and \<open>Math.max\<close> pass a
  \<open>NaN\<close> through, which the template literal prints as \<open>NaN\<close>.
\<close>

definition sanitizeGradientDirection :: "string \<Rightarrow> string" where
  "sanitizeGradientDirection direction =
     (case matchDegrees direction of
        Some ds \<Rightarrow>
          (case parseInt ds 10 of
             Some n \<Rightarrow> numberToString (min 360 (max 0 n)) 10 @ ''deg''
           | None \<Rightarrow> ''NaNdeg'')
      | None \<Rightarrow> ''90deg'')"

section \<open>The document and the theme configuration\<close>

text \<open>
  Of the page the script touches three things: the class attribute of the root element
  (held as its list of tokens, which is what \<open>classList\<close> works on; \<open>className\<close> is the
  tokens joined by blanks), whether \<open>document.head\<close> exists, and the element whose id is
  \<open>discolors-theme-style\<close>, of which only the text content matters (\<open>None\<close>: no such
  element in the document).
\<close>

record Document =
  classList :: "string list"
  hasHead :: bool
  styleElement :: "string option"

record ThemeConfig =
  colorCount :: int
  colors :: "string list"
  gradientDirection :: string
  useRandomColors :: bool

datatype ThemeMode = Light | Dark

definition THEME_CLASS_NAME :: string where
  "THEME_CLASS_NAME = ''custom-theme-background''"

definition className :: "Document \<Rightarrow> string" where
  "className doc = joinWith '' '' (classList doc)"

definition classListAdd :: "string \<Rightarrow> string list \<Rightarrow> string list" where
  "classListAdd t ts = (if t \<in> set ts then ts else ts @ [t])"

definition detectThemeMode :: "Document \<Rightarrow> ThemeMode" where
  "detectThemeMode doc =
     (let htmlClass = className doc
      in if strIncludes htmlClass ''theme-light'' then Light
         else if strIncludes htmlClass ''theme-dark'' then Dark
         else Dark)"

section \<open>Theme generation\<close>

text \<open>
  \<open>Math.random()\<close> is a sequence of numbers in \<open>[0, 1)\<close> handed to the function: \<open>rnd k\<close>
  is what the \<open>k\<close>-th call returns. \<open>generateThemeCSS\<close> draws one number per colour, in
  order, and then one for the angle. The products with \<open>16777215\<close> and \<open>360\<close> are exact
  here. The local constants of \<open>generateThemeCSS\<close> are definitions of their own, under
  the names they have in the source; \<open>randomColor\<close> is the arrow function that
  \<open>Array.from\<close> calls for each colour.
\<close>

definition randomColor :: "real \<Rightarrow> string" where
  "randomColor u = ''#'' @ padStart 6 (CHR ''0'') (numberToString \<lfloor>u * 16777215\<rfloor> 16)"

definition colorsToUse :: "ThemeConfig \<Rightarrow> (nat \<Rightarrow> real) \<Rightarrow> string list" where
  "colorsToUse config rnd =
     (if useRandomColors config
      then map (\<lambda>i. randomColor (rnd i)) [0..<nat (colorCount config)]
      else sliceTo (colors config) (colorCount config))"

definition direction :: "ThemeConfig \<Rightarrow> (nat \<Rightarrow> real) \<Rightarrow> string" where
  "direction config rnd =
     (if useRandomColors config
      then numberToString \<lfloor>rnd (nat (colorCount config)) * 360\<rfloor> 10 @ ''deg''
      else sanitizeGradientDirection (gradientDirection config))"

definition backgroundValue :: "string \<Rightarrow> string list \<Rightarrow> string \<Rightarrow> string" where
  "backgroundValue dir cs mainColor =
     (if length cs > 1
      then ''linear-gradient('' @ dir @ '', '' @ joinWith '', '' cs @ '')''
      else mainColor)"

definition baseColorAmount :: "bool \<Rightarrow> string" where
  "baseColorAmount isDark = (if isDark then ''70.4'' else ''15.2'')"

definition textColorAmount :: "bool \<Rightarrow> string" where
  "textColorAmount isDark = numberToString (if isDark then 30 else 40) 10"

text \<open>The template literal that \<open>generateThemeCSS\<close> returns, with its seven holes.\<close>

definition themeCSS ::
  "string \<Rightarrow> string \<Rightarrow> string \<Rightarrow> string \<Rightarrow> string \<Rightarrow> string \<Rightarrow> string \<Rightarrow> string" where
  "themeCSS bg darkVariant darkTextColor lightVariant lightTextColor baseAmount textAmount =
     [CHR 0x0A] @
     ''    .'' @ THEME_CLASS_NAME @ '' {'' @ [CHR 0x0A] @
     ''        --custom-theme-background: '' @ bg @ '' !important;'' @ [CHR 0x0A] @
     ''        --custom-theme-base-color-dark: '' @ darkVariant @ '' !important;'' @ [CHR 0x0A] @
     ''        --custom-theme-text-color-dark: '' @ darkTextColor @ '' !important;'' @ [CHR 0x0A] @
     ''        --custom-theme-base-color-light: '' @ lightVariant @ '' !important;'' @ [CHR 0x0A] @
     ''        --custom-theme-text-color-light: '' @ lightTextColor @ '' !important;'' @ [CHR 0x0A] @
     ''        --custom-theme-base-color-amount: '' @ baseAmount @ ''%;'' @ [CHR 0x0A] @
     ''        --custom-theme-text-color-amount: '' @ textAmount @ ''%;'' @ [CHR 0x0A] @
     ''    }'' @ [CHR 0x0A] @
     ''    body { '' @ [CHR 0x0A] @
     ''      background: var(--custom-theme-background); '' @ [CHR 0x0A] @
     ''    }'' @ [CHR 0x0A] @
     ''  ''"

definition generateThemeCSS :: "ThemeConfig \<Rightarrow> Document \<Rightarrow> (nat \<Rightarrow> real) \<Rightarrow> string" where
  "generateThemeCSS config doc rnd =
     (let isDark = (detectThemeMode doc = Dark)
      in case colorsToUse config rnd of
           [] \<Rightarrow> ''''
         | mainColor # rest \<Rightarrow>
             (let darkVariant = adjustColor mainColor (- 35);
                  lightVariant = adjustColor mainColor 130
              in themeCSS
                   (backgroundValue (direction config rnd) (mainColor # rest) mainColor)
                   darkVariant (getTextColor darkVariant)
                   lightVariant (getTextColor lightVariant)
                   (baseColorAmount isDark) (textColorAmount isDark)))"

section \<open>Applying the theme and keeping it\<close>

text \<open>
  \<open>applyTheme\<close>: without a head nothing happens. Otherwise the style element is looked up
  by its id, created and appended to the head if there is none, its text is overwritten
  with the compiled text, and the activation class is added to the root. The text is
  compiled from the document as it is before the class is added.
\<close>

definition applyTheme :: "ThemeConfig \<Rightarrow> (nat \<Rightarrow> real) \<Rightarrow> Document \<Rightarrow> Document" where
  "applyTheme config rnd doc =
     (if \<not> hasHead doc then doc
      else doc\<lparr>styleElement := Some (generateThemeCSS config doc rnd),
               classList := classListAdd THEME_CLASS_NAME (classList doc)\<rparr>)"

text \<open>The callback that \<open>initializePersistenceObserver\<close> registers for class mutations of the root.\<close>

definition persistenceObserver :: "Document \<Rightarrow> Document" where
  "persistenceObserver doc =
     (if THEME_CLASS_NAME \<notin> set (classList doc) \<and> styleElement doc \<noteq> None
      then doc\<lparr>classList := classListAdd THEME_CLASS_NAME (classList doc)\<rparr>
      else doc)"

text \<open>
  The first version of the script (\<open>content.js\<close>) drew a random colour channel by channel:
  \<open>randomHexColor\<close> there takes three random numbers.
\<close>

definition randomHexColor :: "real \<Rightarrow> real \<Rightarrow> real \<Rightarrow> string" where
  "randomHexColor u1 u2 u3 =
     (let r = \<lfloor>u1 * 256\<rfloor>; g = \<lfloor>u2 * 256\<rfloor>; b = \<lfloor>u3 * 256\<rfloor>
      in ''#'' @ drop 1 (numberToString (jsShl 1 24 + jsShl r 16 + jsShl g 8 + b) 16))"

section \<open>Notions of the specification\<close>

text \<open>
  The properties below are stated with these notions, which follow the words of the
  specification and not the code: a colour is six hexadecimal digits, with or without a
  leading \<open>#\<close>; its three channels are the values of its three digit pairs; a channel
  is clamped into \<open>0..255\<close> and written as two lower-case digits.
\<close>

definition isHexDigit :: "char \<Rightarrow> bool" where
  "isHexDigit c = (c \<in> set ''0123456789abcdefABCDEF'')"

definition hexBody :: "string \<Rightarrow> string" where
  "hexBody c = (if startsWith c ''#'' then drop 1 c else c)"

definition isHexColor :: "string \<Rightarrow> bool" where
  "isHexColor c = (length (hexBody c) = 6 \<and> list_all isHexDigit (hexBody c))"

definition channel :: "string \<Rightarrow> nat \<Rightarrow> int" where
  "channel c i = int (digitsValue 16 (take 2 (drop (2 * i) (hexBody c))))"

definition clampByte :: "int \<Rightarrow> int" where
  "clampByte x = (if x < 0 then 0 else if 255 < x then 255 else x)"

definition hexByte :: "int \<Rightarrow> string" where
  "hexByte x = [digitChar (nat x div 16), digitChar (nat x mod 16)]"

definition spec_adjust :: "string \<Rightarrow> int \<Rightarrow> string" where
  "spec_adjust c a =
     (if startsWith c ''#'' then ''#'' else '''') @
     hexByte (clampByte (channel c 0 + a)) @
     hexByte (clampByte (channel c 1 + a)) @
     hexByte (clampByte (channel c 2 + a))"

text \<open>\<open>fixedHex k n\<close>: the \<open>k\<close> low hexadecimal digits of \<open>n\<close>, most significant first.\<close>

fun fixedHex :: "nat \<Rightarrow> nat \<Rightarrow> string" where
  "fixedHex 0 n = []"
| "fixedHex (Suc k) n = fixedHex k (n div 16) @ [digitChar (n mod 16)]"

definition toLowerChar :: "char \<Rightarrow> char" where
  "toLowerChar c =
     (case map_of (zip ''ABCDEFGHIJKLMNOPQRSTUVWXYZ'' ''abcdefghijklmnopqrstuvwxyz'') c of
        Some l \<Rightarrow> l
      | None \<Rightarrow> c)"

definition specLuminance :: "string \<Rightarrow> real" where
  "specLuminance c =
     0.299 * real_of_int (channel c 0) + 0.587 * real_of_int (channel c 1)
       + 0.114 * real_of_int (channel c 2)"

text \<open>For examples: a source of random numbers that returns the same number at every call.\<close>

definition constRandom :: "real \<Rightarrow> nat \<Rightarrow> real" where
  "constRandom u k = u"

section \<open>Auxiliary facts\<close>

lemma hexDigit_facts:
  assumes "isHexDigit c"
  shows "isRadixDigit 16 c" "digitNat c < 16" "\<not> isWhiteSpace c"
    "c \<noteq> CHR ''-''" "c \<noteq> CHR ''+''" "c \<noteq> CHR ''x''" "c \<noteq> CHR ''X''" "c \<noteq> CHR ''#''"
  using assms unfolding isHexDigit_def
  by (auto simp: isRadixDigit_def digitNat_def digitValue_def isWhiteSpace_def)

lemma parseInt_hex:
  assumes "h \<noteq> []" "list_all isHexDigit h"
  shows "parseInt h 16 = Some (int (digitsValue 16 h))"
proof -
  obtain c cs where h: "h = c # cs" using assms(1) by (cases h) auto
  have c: "isHexDigit c" and cs: "list_all isHexDigit cs" using assms(2) h by auto
  have ws: "dropWhile isWhiteSpace h = h" using hexDigit_facts(3)[OF c] h by simp
  have sg: "take 1 h \<noteq> ''-''" "take 1 h \<noteq> ''+''"
    using hexDigit_facts(4,5)[OF c] h by auto
  have px: "take 2 h \<noteq> ''0x''" "take 2 h \<noteq> ''0X''"
    using cs h hexDigit_facts(6,7) by (cases cs; auto)+
  have tw: "takeWhile (isRadixDigit 16) h = h"
    using assms(2) hexDigit_facts(1) by (simp add: list_all_iff)
  show ?thesis
    using sg px assms(1) by (simp add: parseInt_def Let_def ws tw)
qed

lemma decDigit_facts:
  assumes "isDecDigit c"
  shows "isRadixDigit 10 c" "\<not> isWhiteSpace c" "c \<noteq> CHR ''-''" "c \<noteq> CHR ''+''"
proof -
  have "\<forall>c\<in>set ''0123456789''. isRadixDigit 10 c \<and> \<not> isWhiteSpace c
          \<and> c \<noteq> CHR ''-'' \<and> c \<noteq> CHR ''+''"
    by (simp add: isRadixDigit_def digitValue_def isWhiteSpace_def)
  then show "isRadixDigit 10 c" "\<not> isWhiteSpace c" "c \<noteq> CHR ''-''" "c \<noteq> CHR ''+''"
    using assms unfolding isDecDigit_def by blast+
qed

lemma parseInt_dec:
  assumes "ds \<noteq> []" "list_all isDecDigit ds"
  shows "parseInt ds 10 = Some (int (digitsValue 10 ds))"
proof -
  obtain c cs where h: "ds = c # cs" using assms(1) by (cases ds) auto
  have c: "isDecDigit c" using assms(2) h by auto
  have ws: "dropWhile isWhiteSpace ds = ds" using decDigit_facts(2)[OF c] h by simp
  have sg: "take 1 ds \<noteq> ''-''" "take 1 ds \<noteq> ''+''"
    using decDigit_facts(3,4)[OF c] h by auto
  have tw: "takeWhile (isRadixDigit 10) ds = ds"
    using assms(2) decDigit_facts(1) by (simp add: list_all_iff)
  show ?thesis
    using sg assms(1) by (simp add: parseInt_def Let_def ws tw)
qed

lemma and_255_int: "(n::int) AND 255 = n mod 256"
proof -
  have "n AND mask 8 = take_bit 8 n" by (simp add: take_bit_eq_mask)
  then show ?thesis by (simp add: mask_eq_exp_minus_1 take_bit_eq_mod)
qed

lemma stb31_id: "- 2147483648 \<le> k \<Longrightarrow> k < 2147483648 \<Longrightarrow> signed_take_bit 31 (k::int) = k"
  by (rule signed_take_bit_int_eq_self) simp_all

lemma or_low_bits:
  assumes "0 \<le> b" "b < 2 ^ n"
  shows "push_bit n (y::int) OR b = y * 2 ^ n + b"
proof -
  have "take_bit n b = b" using assms by (simp add: take_bit_int_eq_self)
  then have "push_bit n y OR b = take_bit n b OR push_bit n y" by (simp add: or.commute)
  also have "\<dots> = take_bit n b + push_bit n y"
    using concat_bit_def[of n b y] concat_bit_eq[of n b y] by simp
  finally show ?thesis using \<open>take_bit n b = b\<close> by (simp add: push_bit_eq_mult)
qed

lemma or_shift_bytes:
  assumes "0 \<le> r" "r \<le> 255" "0 \<le> g" "g \<le> 255" "0 \<le> b" "b \<le> (255::int)"
  shows "jsOr (jsOr (jsShl r 16) (jsShl g 8)) b = r * 65536 + g * 256 + b"
proof -
  have r: "jsShl r 16 = push_bit 8 (push_bit 8 r)" and r': "jsShl r 16 = r * 65536"
    using assms by (simp_all add: jsShl_def stb31_id push_bit_eq_mult)
  have g: "jsShl g 8 = push_bit 8 g" and g': "jsShl g 8 = g * 256"
    using assms by (simp_all add: jsShl_def stb31_id push_bit_eq_mult)
  have "jsShl r 16 OR jsShl g 8 = push_bit 8 (push_bit 8 r OR g)"
    unfolding r g by simp
  also have "push_bit 8 r OR g = r * 256 + g"
    using or_low_bits[of g 8 r] assms by simp
  finally have rg: "jsShl r 16 OR jsShl g 8 = push_bit 8 (r * 256 + g)" .
  have 1: "jsOr (jsShl r 16) (jsShl g 8) = push_bit 8 (r * 256 + g)"
    using assms rg by (simp add: jsOr_def r' g' stb31_id)
  have 2: "push_bit 8 (r * 256 + g) OR b = (r * 256 + g) * 256 + b"
    using or_low_bits[of b 8 "r * 256 + g"] assms by simp
  have 3: "signed_take_bit 31 (push_bit 8 (r * 256 + g)) = push_bit 8 (r * 256 + g)"
    using assms by (intro stb31_id) (simp_all add: push_bit_eq_mult)
  have 4: "signed_take_bit 31 b = b"
    using assms by (intro stb31_id) simp_all
  have "jsOr (jsOr (jsShl r 16) (jsShl g 8)) b = jsOr (push_bit 8 (r * 256 + g)) b"
    by (simp only: 1)
  also have "\<dots> = push_bit 8 (r * 256 + g) OR b"
    by (simp only: jsOr_def 3 4)
  finally show ?thesis by (simp add: 2)
qed

lemma channels_of_num:
  assumes "0 \<le> r" "r \<le> 255" "0 \<le> g" "g \<le> 255" "0 \<le> b" "b \<le> (255::int)"
  shows "jsShr (Some (r * 65536 + g * 256 + b)) 16 = r"
    "jsAnd (Some (jsShr (Some (r * 65536 + g * 256 + b)) 8)) 255 = g"
    "jsAnd (Some (r * 65536 + g * 256 + b)) 255 = b"
proof -
  let ?n = "r * 65536 + g * 256 + b"
  have n: "signed_take_bit 31 ?n = ?n" using assms by (intro stb31_id) auto
  show "jsShr (Some ?n) 16 = r"
    using assms by (simp add: jsShr_def toInt32_def n drop_bit_eq_div)
  have s8: "jsShr (Some ?n) 8 = r * 256 + g"
    using assms by (simp add: jsShr_def toInt32_def n drop_bit_eq_div)
  have m: "signed_take_bit 31 (r * 256 + g) = r * 256 + g" using assms by (intro stb31_id) auto
  show "jsAnd (Some (jsShr (Some ?n) 8)) 255 = g"
    using assms by (simp add: s8 jsAnd_def toInt32_def m stb31_id and_255_int)
  have "?n mod 256 = (b + 256 * (r * 256 + g)) mod 256" by (simp add: algebra_simps)
  also have "\<dots> = b" using assms by (simp only: mod_mult_self2) simp
  finally have lo: "?n mod 256 = b" .
  show "jsAnd (Some ?n) 255 = b"
    by (simp add: jsAnd_def toInt32_def n stb31_id and_255_int lo)
qed

lemma natToString_small: "n < R \<Longrightarrow> natToString R n = [digitChar n]"
  by (simp add: natToString.simps)

lemma natToString_step:
  "2 \<le> R \<Longrightarrow> R \<le> n \<Longrightarrow> natToString R n = natToString R (n div R) @ [digitChar (n mod R)]"
  by (subst natToString.simps) simp

lemma numberToString_45: "numberToString 45 10 = ''45''"
  by (simp add: numberToString_def natToString.simps digitChar_def)

lemma numberToString_90: "numberToString 90 10 = ''90''"
  by (simp add: numberToString_def natToString.simps digitChar_def)

lemma numberToString_360: "numberToString 360 10 = ''360''"
  by (simp add: numberToString_def natToString.simps digitChar_def)

lemma padStart_snoc: "padStart (Suc k) c (xs @ [y]) = padStart k c xs @ [y]"
  by (simp add: padStart_def)

lemma fixedHex_zero: "fixedHex k 0 = replicate k (CHR ''0'')"
  by (induction k) (simp_all add: digitChar_def replicate_append_same)

lemma padStart_natToString:
  "n < 16 ^ Suc k \<Longrightarrow> padStart (Suc k) (CHR ''0'') (natToString 16 n) = fixedHex (Suc k) n"
proof (induction k arbitrary: n)
  case 0
  then show ?case by (simp add: padStart_def natToString_small)
next
  case (Suc k)
  show ?case
  proof (cases "n < 16")
    case True
    then show ?thesis
      by (simp add: natToString_small padStart_def fixedHex_zero)
  next
    case False
    have "n div 16 < 16 ^ Suc k" using Suc.prems by (simp add: less_mult_imp_div_less mult.commute)
    then show ?thesis using False Suc.IH[of "n div 16"]
      by (simp add: natToString_step padStart_snoc)
  qed
qed

lemma length6E:
  assumes "length h = 6"
  obtains c1 c2 c3 c4 c5 c6 where "h = [c1, c2, c3, c4, c5, c6]"
  using assms by (auto simp: eval_nat_numeral length_Suc_conv)

lemma digitChar_facts:
  assumes "d < 16"
  shows "isHexDigit (digitChar d)" "digitNat (digitChar d) = d" "digitChar d \<noteq> CHR ''#''"
proof -
  have "\<forall>d\<in>{..<16::nat}. isHexDigit (digitChar d) \<and> digitNat (digitChar d) = d \<and> digitChar d \<noteq> CHR ''#''"
    by (simp add: lessThan_nat_numeral lessThan_Suc digitChar_def isHexDigit_def digitNat_def digitValue_def)
  then show "isHexDigit (digitChar d)" "digitNat (digitChar d) = d" "digitChar d \<noteq> CHR ''#''"
    using assms by auto
qed

lemma fixedHex_byte:
  assumes "b < 256"
  shows "fixedHex (Suc (Suc k)) (m * 256 + b) = fixedHex k m @ [digitChar (b div 16), digitChar (b mod 16)]"
proof -
  have e: "m * 256 + b = b + 16 * (m * 16)" by simp
  have q: "b div 16 < 16" using assms by simp
  have e': "m * 16 + b div 16 = b div 16 + 16 * m" by simp
  have 1: "(m * 256 + b) mod 16 = b mod 16" unfolding e by (rule mod_mult_self2)
  have 2: "(m * 256 + b) div 16 = m * 16 + b div 16" unfolding e by (subst div_mult_self2) simp_all
  have 3: "(m * 16 + b div 16) mod 16 = b div 16" unfolding e' using q by (subst mod_mult_self2) simp
  have 4: "(m * 16 + b div 16) div 16 = m" unfolding e' using q by (subst div_mult_self2) simp_all
  have 5: "b div 16 mod 16 = b div 16" using q by simp
  show ?thesis by (simp add: 1 2 3 4 5)
qed

lemma fixedHex_bytes:
  assumes "r < 256" "g < 256" "b < 256"
  shows "fixedHex 6 (r * 65536 + g * 256 + b) =
    [digitChar (r div 16), digitChar (r mod 16), digitChar (g div 16), digitChar (g mod 16),
     digitChar (b div 16), digitChar (b mod 16)]"
proof -
  have six: "(6::nat) = Suc (Suc (Suc (Suc (Suc (Suc 0)))))" by simp
  have n: "r * 65536 + g * 256 + b = ((0 * 256 + r) * 256 + g) * 256 + b" by simp
  show ?thesis
    unfolding six n using assms by (simp only: fixedHex_byte fixedHex.simps(1) append_Nil append_Cons)
qed

lemma digitsValue_two: "digitsValue 16 [c, d] = digitNat c * 16 + digitNat d"
  by (simp add: digitsValue_def)

lemma digitsValue_six:
  "int (digitsValue 16 [c1, c2, c3, c4, c5, c6]) =
     int (digitsValue 16 [c1, c2]) * 65536 + int (digitsValue 16 [c3, c4]) * 256
       + int (digitsValue 16 [c5, c6])"
  by (simp add: digitsValue_def)

lemma digitsValue_snoc: "digitsValue R (xs @ [c]) = digitsValue R xs * R + digitNat c"
  by (simp add: digitsValue_def)

lemma digitsValue_fixedHex: "n < 16 ^ k \<Longrightarrow> digitsValue 16 (fixedHex k n) = n"
proof (induction k arbitrary: n)
  case 0
  then show ?case by (simp add: digitsValue_def)
next
  case (Suc k)
  have q: "n div 16 < 16 ^ k" using Suc.prems by (simp add: less_mult_imp_div_less mult.commute)
  have r: "digitNat (digitChar (n mod 16)) = n mod 16" by (rule digitChar_facts(2)) simp
  show ?case by (simp add: digitsValue_snoc Suc.IH[OF q] r)
qed

lemma startsWith_pound: "startsWith s ''#'' = (\<exists>t. s = CHR ''#'' # t)"
  by (cases s) (auto simp: startsWith_def)

lemma strIncludes_prefix: "strIncludes (s @ b) s"
proof (cases "s @ b")
  case Nil
  then show ?thesis by simp
next
  case (Cons x xs)
  have "startsWith (s @ b) s" by (simp add: startsWith_def)
  then show ?thesis unfolding Cons by simp
qed

lemma strIncludes_mid: "strIncludes (a @ s @ b) s"
  by (induction a) (simp_all add: strIncludes_prefix)

section \<open>Adjusting a colour\<close>

lemma clamp_eq: "max (min 255 x) 0 = clampByte x"
  by (simp add: clampByte_def)

lemma clampByte_range: "0 \<le> clampByte x" "clampByte x \<le> 255"
  by (simp_all add: clampByte_def)

lemma pair_range:
  assumes "isHexDigit c" "isHexDigit d"
  shows "int (digitsValue 16 [c, d]) \<le> 255"
  using hexDigit_facts(2)[OF assms(1)] hexDigit_facts(2)[OF assms(2)]
  by (simp add: digitsValue_two)

lemma serialize_bytes:
  assumes "0 \<le> r" "r \<le> 255" "0 \<le> g" "g \<le> 255" "0 \<le> b" "b \<le> (255::int)"
  shows "padStart 6 (CHR ''0'') (numberToString (jsOr (jsOr (jsShl r 16) (jsShl g 8)) b) 16)
           = hexByte r @ hexByte g @ hexByte b"
proof -
  let ?n = "nat r * 65536 + nat g * 256 + nat b"
  have v: "jsOr (jsOr (jsShl r 16) (jsShl g 8)) b = int ?n"
    using assms by (simp add: or_shift_bytes)
  have lt: "?n < 16 ^ Suc 5" using assms by simp
  have "numberToString (int ?n) 16 = natToString 16 ?n"
    by (simp only: numberToString_def nat_int) simp
  then have "padStart 6 (CHR ''0'') (numberToString (int ?n) 16) = fixedHex 6 ?n"
    using padStart_natToString[OF lt] by simp
  also have "\<dots> = hexByte r @ hexByte g @ hexByte b"
    using assms by (subst fixedHex_bytes) (simp_all add: hexByte_def)
  finally show ?thesis by (simp only: v)
qed

lemma adjustColor_body:
  assumes "list_all isHexDigit [c1, c2, c3, c4, c5, c6]"
  shows "padStart 6 (CHR ''0'')
           (numberToString
              (jsOr (jsOr (jsShl (max (min 255 (jsShr (parseInt [c1, c2, c3, c4, c5, c6] 16) 16 + a)) 0) 16)
                          (jsShl (max (min 255 (jsAnd (Some (jsShr (parseInt [c1, c2, c3, c4, c5, c6] 16) 8)) 255 + a)) 0) 8))
                    (max (min 255 (jsAnd (parseInt [c1, c2, c3, c4, c5, c6] 16) 255 + a)) 0)) 16)
         = hexByte (clampByte (int (digitsValue 16 [c1, c2]) + a))
           @ hexByte (clampByte (int (digitsValue 16 [c3, c4]) + a))
           @ hexByte (clampByte (int (digitsValue 16 [c5, c6]) + a))"
proof -
  let ?R = "int (digitsValue 16 [c1, c2])"
  let ?G = "int (digitsValue 16 [c3, c4])"
  let ?B = "int (digitsValue 16 [c5, c6])"
  have hx: "isHexDigit c1" "isHexDigit c2" "isHexDigit c3" "isHexDigit c4" "isHexDigit c5" "isHexDigit c6"
    using assms by simp_all
  have rng: "0 \<le> ?R" "?R \<le> 255" "0 \<le> ?G" "?G \<le> 255" "0 \<le> ?B" "?B \<le> 255"
    using pair_range hx by simp_all
  have num: "parseInt [c1, c2, c3, c4, c5, c6] 16 = Some (?R * 65536 + ?G * 256 + ?B)"
    using parseInt_hex[OF _ assms] by (simp only: digitsValue_six) simp
  show ?thesis
    unfolding num channels_of_num[OF rng] clamp_eq
    by (rule serialize_bytes) (rule clampByte_range)+
qed

lemma adjustColor_eq_spec:
  assumes "isHexColor c"
  shows "adjustColor c a = spec_adjust c a"
proof -
  obtain c1 c2 c3 c4 c5 c6 where h: "hexBody c = [c1, c2, c3, c4, c5, c6]"
    using assms length6E unfolding isHexColor_def by blast
  have hx: "list_all isHexDigit [c1, c2, c3, c4, c5, c6]"
    using assms h by (simp add: isHexColor_def)
  have ch: "channel c 0 = int (digitsValue 16 [c1, c2])"
    "channel c 1 = int (digitsValue 16 [c3, c4])"
    "channel c 2 = int (digitsValue 16 [c5, c6])"
    by (simp_all add: channel_def h)
  have "adjustColor c a = (if startsWith c ''#'' then ''#'' else '''') @
      padStart 6 (CHR ''0'')
           (numberToString
              (jsOr (jsOr (jsShl (max (min 255 (jsShr (parseInt (hexBody c) 16) 16 + a)) 0) 16)
                          (jsShl (max (min 255 (jsAnd (Some (jsShr (parseInt (hexBody c) 16) 8)) 255 + a)) 0) 8))
                    (max (min 255 (jsAnd (parseInt (hexBody c) 16) 255 + a)) 0)) 16)"
    by (simp only: adjustColor_def Let_def hexBody_def)
  then show ?thesis
    unfolding h adjustColor_body[OF hx] by (simp only: spec_adjust_def ch)
qed

lemma hexByte_valid:
  assumes "0 \<le> x" "x \<le> 255"
  shows "list_all isHexDigit (hexByte x)" "length (hexByte x) = 2"
    "int (digitsValue 16 (hexByte x)) = x" "hd (hexByte x) \<noteq> CHR ''#''"
proof -
  have d: "nat x div 16 < 16" "nat x mod 16 < 16" using assms by simp_all
  show "list_all isHexDigit (hexByte x)"
    using digitChar_facts(1)[OF d(1)] digitChar_facts(1)[OF d(2)] by (simp add: hexByte_def)
  show "length (hexByte x) = 2" by (simp add: hexByte_def)
  have "digitsValue 16 (hexByte x) = nat x div 16 * 16 + nat x mod 16"
    using digitChar_facts(2)[OF d(1)] digitChar_facts(2)[OF d(2)]
    by (simp add: hexByte_def digitsValue_two)
  also have "\<dots> = nat x" by simp
  finally show "int (digitsValue 16 (hexByte x)) = x" using assms by simp
  show "hd (hexByte x) \<noteq> CHR ''#''"
    using digitChar_facts(3)[OF d(1)] by (simp add: hexByte_def)
qed

lemma spec_adjust_body:
  "hexBody (spec_adjust c a) =
     hexByte (clampByte (channel c 0 + a)) @ hexByte (clampByte (channel c 1 + a))
       @ hexByte (clampByte (channel c 2 + a))"
proof (cases "startsWith c ''#''")
  case True
  then show ?thesis by (simp add: spec_adjust_def hexBody_def startsWith_def)
next
  case False
  have "hd (hexByte (clampByte (channel c 0 + a))) \<noteq> CHR ''#''"
    by (rule hexByte_valid(4)) (rule clampByte_range)+
  then have "\<not> startsWith (spec_adjust c a) ''#''"
    using False by (auto simp: spec_adjust_def startsWith_pound hexByte_def)
  then show ?thesis using False by (simp add: hexBody_def spec_adjust_def)
qed

lemma spec_adjust_pound: "startsWith (spec_adjust c a) ''#'' = startsWith c ''#''"
proof (cases "startsWith c ''#''")
  case True
  then show ?thesis by (simp add: spec_adjust_def startsWith_def)
next
  case False
  have "hd (hexByte (clampByte (channel c 0 + a))) \<noteq> CHR ''#''"
    by (rule hexByte_valid(4)) (rule clampByte_range)+
  then show ?thesis
    using False by (auto simp: spec_adjust_def startsWith_pound hexByte_def)
qed

lemma spec_adjust_valid: "isHexColor (spec_adjust c a)"
  unfolding isHexColor_def spec_adjust_body
  using hexByte_valid(1,2)[OF clampByte_range] by simp

lemma spec_adjust_channel:
  assumes "i < 3"
  shows "channel (spec_adjust c a) i = clampByte (channel c i + a)"
proof -
  have "i = 0 \<or> i = 1 \<or> i = 2" using assms by auto
  then show ?thesis
    unfolding channel_def[of "spec_adjust c a"] spec_adjust_body
    using hexByte_valid(2,3)[OF clampByte_range]
    by (elim disjE) simp_all
qed

lemma channel_range:
  assumes "isHexColor c" "i < 3"
  shows "0 \<le> channel c i \<and> channel c i \<le> 255"
proof -
  have "length (hexBody c) = 6" using assms(1) by (simp add: isHexColor_def)
  then obtain c1 c2 c3 c4 c5 c6 where h: "hexBody c = [c1, c2, c3, c4, c5, c6]"
    by (rule length6E)
  have hx: "isHexDigit c1" "isHexDigit c2" "isHexDigit c3" "isHexDigit c4" "isHexDigit c5" "isHexDigit c6"
    using assms(1) h by (simp_all add: isHexColor_def)
  have "i = 0 \<or> i = 1 \<or> i = 2" using assms(2) by auto
  then show ?thesis
    using pair_range hx by (elim disjE) (simp_all add: channel_def h)
qed

text \<open>
  C7. For every six-digit hexadecimal colour \<open>c\<close>, with or without a leading \<open>#\<close>, and
  every integer \<open>a\<close>, \<open>adjustColor c a\<close> is what the specification describes: \<open>a\<close> is
  added to each of the three channels on its own, each sum is clamped into \<open>0..255\<close> and
  written as two hexadecimal digits, after a \<open>#\<close> exactly when \<open>c\<close> had one. The result is
  again a six-digit colour, its leading \<open>#\<close> is the input's, and read back, each of its
  channels is the clamped sum, between 0 and 255.
\<close>

theorem adjustColor_channels:
  assumes "isHexColor c"
  shows "adjustColor c a = spec_adjust c a
       \<and> isHexColor (adjustColor c a)
       \<and> (startsWith (adjustColor c a) ''#'' \<longleftrightarrow> startsWith c ''#'')
       \<and> (\<forall>i<3. channel (adjustColor c a) i = clampByte (channel c i + a)
                \<and> 0 \<le> channel (adjustColor c a) i \<and> channel (adjustColor c a) i \<le> 255)"
  unfolding adjustColor_eq_spec[OF assms]
  using spec_adjust_valid spec_adjust_pound spec_adjust_channel clampByte_range
  by simp

theorem adjustColor_channels_witness:
  "isHexColor ''#213220''
     \<and> adjustColor ''#213220'' (- 35) = ''#000f00''
     \<and> isHexColor (adjustColor ''#213220'' (- 35))
     \<and> startsWith (adjustColor ''#213220'' (- 35)) ''#''
     \<and> channel (adjustColor ''#213220'' (- 35)) 1 = 15"
proof -
  have v: "isHexColor ''#213220''"
    by (simp add: isHexColor_def hexBody_def startsWith_def isHexDigit_def)
  have s: "spec_adjust ''#213220'' (- 35) = ''#000f00''"
    by (simp add: spec_adjust_def channel_def hexBody_def startsWith_def digitsValue_def
        digitNat_def digitValue_def clampByte_def hexByte_def digitChar_def)
  have c: "clampByte (channel ''#213220'' 1 + - 35) = 15"
    by (simp add: channel_def hexBody_def startsWith_def digitsValue_def
        digitNat_def digitValue_def clampByte_def)
  show ?thesis
    using adjustColor_channels[OF v, of "- 35"] v s c
    by (auto simp: startsWith_def)
qed

lemma digitChar_digitNat:
  assumes "isHexDigit c"
  shows "digitChar (digitNat c) = toLowerChar c"
proof -
  have "\<forall>c\<in>set ''0123456789abcdefABCDEF''. digitChar (digitNat c) = toLowerChar c"
    by (simp add: digitNat_def digitValue_def digitChar_def toLowerChar_def)
  then show ?thesis using assms unfolding isHexDigit_def by blast
qed

lemma hexByte_pair:
  assumes "isHexDigit c" "isHexDigit d"
  shows "hexByte (clampByte (int (digitsValue 16 [c, d]) + 0)) = [toLowerChar c, toLowerChar d]"
proof -
  let ?x = "digitNat c * 16 + digitNat d"
  have d: "digitNat d < 16" and c: "digitNat c < 16"
    using hexDigit_facts(2) assms by simp_all
  have q: "?x div 16 = digitNat c" using d by simp
  have r: "?x mod 16 = digitNat d" using d by simp
  have cl: "clampByte (int (digitsValue 16 [c, d]) + 0) = int ?x"
    using pair_range[OF assms] by (simp add: clampByte_def digitsValue_two)
  show ?thesis
    unfolding cl hexByte_def nat_int q r
    using digitChar_digitNat assms by simp
qed

lemma adjustColor_zero:
  assumes "isHexColor c"
  shows "adjustColor c 0 = map toLowerChar c"
proof -
  have "length (hexBody c) = 6" using assms by (simp add: isHexColor_def)
  then obtain c1 c2 c3 c4 c5 c6 where h: "hexBody c = [c1, c2, c3, c4, c5, c6]"
    by (rule length6E)
  have hx: "isHexDigit c1" "isHexDigit c2" "isHexDigit c3" "isHexDigit c4" "isHexDigit c5" "isHexDigit c6"
    using assms h by (simp_all add: isHexColor_def)
  have ch: "channel c 0 = int (digitsValue 16 [c1, c2])"
    "channel c 1 = int (digitsValue 16 [c3, c4])"
    "channel c 2 = int (digitsValue 16 [c5, c6])"
    by (simp_all add: channel_def h)
  have body: "hexByte (clampByte (channel c 0 + 0)) @ hexByte (clampByte (channel c 1 + 0))
        @ hexByte (clampByte (channel c 2 + 0)) = map toLowerChar (hexBody c)"
    unfolding ch using hx by (simp only: hexByte_pair h) simp
  have pound: "toLowerChar (CHR ''#'') = CHR ''#''" by (simp add: toLowerChar_def)
  show ?thesis
  proof (cases "startsWith c ''#''")
    case True
    then obtain t where t: "c = CHR ''#'' # t" by (auto simp: startsWith_pound)
    then have "hexBody c = t" by (simp add: hexBody_def startsWith_def)
    then have "spec_adjust c 0 = map toLowerChar c"
      using body True pound unfolding spec_adjust_def by (simp add: t)
    then show ?thesis by (simp only: adjustColor_eq_spec[OF assms])
  next
    case False
    then have "hexBody c = c" by (simp add: hexBody_def)
    then have "spec_adjust c 0 = map toLowerChar c"
      using body False unfolding spec_adjust_def by simp
    then show ?thesis by (simp only: adjustColor_eq_spec[OF assms])
  qed
qed

text \<open>
  C8. For every six-digit hexadecimal colour \<open>c\<close>, adjusting by zero gives \<open>c\<close> back with
  its letters in lower case.
\<close>

theorem adjustColor_zero_identity:
  "isHexColor c \<Longrightarrow> adjustColor c 0 = map toLowerChar c"
  by (rule adjustColor_zero)

theorem adjustColor_zero_identity_witness:
  "isHexColor ''#AbCdEf'' \<and> adjustColor ''#AbCdEf'' 0 = ''#abcdef''"
proof -
  have v: "isHexColor ''#AbCdEf''"
    by (simp add: isHexColor_def hexBody_def startsWith_def isHexDigit_def)
  show ?thesis
    using adjustColor_zero_identity[OF v] v by (simp add: toLowerChar_def)
qed

section \<open>Choosing the text colour\<close>

lemma getTextColor_binary: "getTextColor s = ''#000000'' \<or> getTextColor s = ''#ffffff''"
  by (simp add: getTextColor_def Let_def split: option.split)

lemma getTextColor_hex:
  assumes "isHexColor c" "startsWith c ''#''"
  shows "getTextColor c = (if specLuminance c > 128 then ''#000000'' else ''#ffffff'')"
proof -
  obtain t where t: "c = CHR ''#'' # t" using assms(2) by (auto simp: startsWith_pound)
  then have b: "hexBody c = t" by (simp add: hexBody_def startsWith_def)
  have "length t = 6" using assms(1) b by (simp add: isHexColor_def)
  then obtain c1 c2 c3 c4 c5 c6 where h: "t = [c1, c2, c3, c4, c5, c6]"
    by (rule length6E)
  have hx: "isHexDigit c1" "isHexDigit c2" "isHexDigit c3" "isHexDigit c4" "isHexDigit c5" "isHexDigit c6"
    using assms(1) b h by (simp_all add: isHexColor_def)
  have sl: "sliceStr c 1 3 = [c1, c2]" "sliceStr c 3 5 = [c3, c4]" "sliceStr c 5 7 = [c5, c6]"
    by (simp_all add: sliceStr_def t h)
  have p: "parseInt [c1, c2] 16 = Some (channel c 0)"
    "parseInt [c3, c4] 16 = Some (channel c 1)"
    "parseInt [c5, c6] 16 = Some (channel c 2)"
    using hx by (simp_all add: parseInt_hex channel_def b h)
  show ?thesis
    unfolding getTextColor_def Let_def sl p luminance_def specLuminance_def by simp
qed

text \<open>
  C9. For every six-digit hexadecimal colour \<open>c\<close> with a leading \<open>#\<close>, \<open>getTextColor c\<close> is
  \<open>#000000\<close> exactly when the luminance \<open>0.299 R + 0.587 G + 0.114 B\<close> of its channels,
  each between 0 and 255, exceeds 128, and \<open>#ffffff\<close> otherwise. On any string at all the
  function returns one of these two tokens.
\<close>

theorem getTextColor_threshold:
  "(isHexColor c \<and> startsWith c ''#'' \<longrightarrow>
      getTextColor c = (if specLuminance c > 128 then ''#000000'' else ''#ffffff'')
      \<and> (\<forall>i<3. 0 \<le> channel c i \<and> channel c i \<le> 255))
   \<and> (getTextColor s = ''#000000'' \<or> getTextColor s = ''#ffffff'')"
  using getTextColor_hex[of c] channel_range[of c] getTextColor_binary[of s] by simp

theorem getTextColor_threshold_witness:
  "isHexColor ''#a3b4a2'' \<and> startsWith ''#a3b4a2'' ''#''
     \<and> specLuminance ''#a3b4a2'' > 128 \<and> getTextColor ''#a3b4a2'' = ''#000000''
     \<and> (2::nat) < 3 \<and> channel ''#a3b4a2'' 2 = 162
     \<and> isHexColor ''#808080'' \<and> startsWith ''#808080'' ''#''
     \<and> specLuminance ''#808080'' = 128 \<and> getTextColor ''#808080'' = ''#ffffff''"
proof -
  have v: "isHexColor ''#a3b4a2''" "startsWith ''#a3b4a2'' ''#''"
    "isHexColor ''#808080''" "startsWith ''#808080'' ''#''"
    by (simp_all add: isHexColor_def hexBody_def startsWith_def isHexDigit_def)
  have l: "specLuminance ''#a3b4a2'' = 172.865" "specLuminance ''#808080'' = 128"
    by (simp_all add: specLuminance_def channel_def hexBody_def startsWith_def digitsValue_def
        digitNat_def digitValue_def)
  have c: "channel ''#a3b4a2'' 2 = 162"
    by (simp add: channel_def hexBody_def startsWith_def digitsValue_def digitNat_def digitValue_def)
  show ?thesis
    using getTextColor_threshold[of "''#a3b4a2''" "''''"]
      getTextColor_threshold[of "''#808080''" "''''"] v l c by simp
qed

section \<open>Sanitising the gradient direction\<close>

lemma matchDegrees_digits:
  assumes "ds \<noteq> []" "list_all isDecDigit ds"
  shows "matchDegrees (ds @ ''deg'') = Some ds"
proof -
  have nd: "\<not> isDecDigit (CHR ''d'')" by (simp add: isDecDigit_def)
  have all: "\<And>x. x \<in> set ds \<Longrightarrow> isDecDigit x" using assms(2) by (simp add: list_all_iff)
  have t: "takeWhile isDecDigit (ds @ ''deg'') = ds"
    using all nd by simp
  have d: "dropWhile isDecDigit (ds @ ''deg'') = ''deg''"
    using all nd by simp
  show ?thesis using assms(1) by (simp add: matchDegrees_def Let_def t d)
qed

lemma matchDegrees_Some:
  assumes "matchDegrees d = Some ds"
  shows "ds \<noteq> [] \<and> list_all isDecDigit ds \<and> d = ds @ ''deg''"
proof -
  have 1: "ds = takeWhile isDecDigit d" "ds \<noteq> []" "dropWhile isDecDigit d = ''deg''"
    using assms by (auto simp: matchDegrees_def Let_def split: if_splits)
  have "list_all isDecDigit ds"
    unfolding 1(1) list_all_iff by (auto dest: set_takeWhileD)
  moreover have "d = ds @ ''deg''"
    using takeWhile_dropWhile_id[of isDecDigit d] 1 by simp
  ultimately show ?thesis using 1(2) by simp
qed

lemma sanitize_match:
  assumes "ds \<noteq> []" "list_all isDecDigit ds"
  shows "sanitizeGradientDirection (ds @ ''deg'')
           = numberToString (min 360 (max 0 (int (digitsValue 10 ds)))) 10 @ ''deg''"
  by (simp add: sanitizeGradientDirection_def matchDegrees_digits[OF assms] parseInt_dec[OF assms])

lemma sanitize_nomatch:
  assumes "\<forall>ds. ds \<noteq> [] \<and> list_all isDecDigit ds \<longrightarrow> d \<noteq> ds @ ''deg''"
  shows "sanitizeGradientDirection d = ''90deg''"
proof (cases "matchDegrees d")
  case None
  then show ?thesis by (simp add: sanitizeGradientDirection_def)
next
  case (Some ds)
  then show ?thesis using matchDegrees_Some[OF Some] assms by blast
qed

lemma sanitize_examples:
  "sanitizeGradientDirection ''45deg'' = ''45deg''"
  "sanitizeGradientDirection ''900deg'' = ''360deg''"
  "sanitizeGradientDirection ''-5deg'' = ''90deg''"
  "sanitizeGradientDirection ''blue'' = ''90deg''"
proof -
  have "sanitizeGradientDirection (''45'' @ ''deg'') = ''45deg''"
    by (subst sanitize_match) (simp_all add: isDecDigit_def digitsValue_def digitNat_def digitValue_def numberToString_45)
  then show "sanitizeGradientDirection ''45deg'' = ''45deg''" by simp
  have "sanitizeGradientDirection (''900'' @ ''deg'') = ''360deg''"
    by (subst sanitize_match) (simp_all add: isDecDigit_def digitsValue_def digitNat_def digitValue_def numberToString_360)
  then show "sanitizeGradientDirection ''900deg'' = ''360deg''" by simp
  show "sanitizeGradientDirection ''-5deg'' = ''90deg''"
    by (simp add: sanitizeGradientDirection_def matchDegrees_def isDecDigit_def)
  show "sanitizeGradientDirection ''blue'' = ''90deg''"
    by (simp add: sanitizeGradientDirection_def matchDegrees_def isDecDigit_def)
qed

lemma sanitize_90: "sanitizeGradientDirection ''90deg'' = ''90deg''"
proof -
  have "sanitizeGradientDirection (''90'' @ ''deg'') = ''90deg''"
    by (subst sanitize_match)
      (simp_all add: isDecDigit_def digitsValue_def digitNat_def digitValue_def numberToString_90)
  then show ?thesis by simp
qed

text \<open>
  C6. If the input is a non-empty run of decimal digits followed by \<open>deg\<close> (the strings
  that match \<open>^\d+deg$\<close>), the result is the number the digits denote, clamped into
  \<open>0..360\<close>, followed by \<open>deg\<close>. Every other input gives \<open>90deg\<close>. In particular
  \<open>45deg\<close> stays, \<open>900deg\<close> becomes \<open>360deg\<close>, and \<open>-5deg\<close> and \<open>blue\<close> become
  \<open>90deg\<close>.
\<close>

theorem sanitize_degrees:
  "(ds \<noteq> [] \<and> list_all isDecDigit ds \<longrightarrow>
      sanitizeGradientDirection (ds @ ''deg'')
        = numberToString (min 360 (max 0 (int (digitsValue 10 ds)))) 10 @ ''deg'')
   \<and> (\<not> (\<exists>ds. ds \<noteq> [] \<and> list_all isDecDigit ds \<and> d = ds @ ''deg'') \<longrightarrow>
      sanitizeGradientDirection d = ''90deg'')
   \<and> sanitizeGradientDirection ''45deg'' = ''45deg''
   \<and> sanitizeGradientDirection ''900deg'' = ''360deg''
   \<and> sanitizeGradientDirection ''-5deg'' = ''90deg''
   \<and> sanitizeGradientDirection ''blue'' = ''90deg''"
proof -
  have "sanitizeGradientDirection d = ''90deg''"
    if "\<not> (\<exists>ds. ds \<noteq> [] \<and> list_all isDecDigit ds \<and> d = ds @ ''deg'')"
    using that by (intro sanitize_nomatch) blast
  then show ?thesis
    using sanitize_match[of ds] sanitize_examples by blast
qed

theorem sanitize_degrees_witness:
  "''900'' \<noteq> [] \<and> list_all isDecDigit ''900''
     \<and> sanitizeGradientDirection (''900'' @ ''deg'') = ''360deg''
     \<and> \<not> (\<exists>ds. ds \<noteq> [] \<and> list_all isDecDigit ds \<and> ''90 deg'' = ds @ ''deg'')
     \<and> sanitizeGradientDirection ''90 deg'' = ''90deg''"
proof -
  have a: "''900'' \<noteq> [] \<and> list_all isDecDigit ''900''" by (simp add: isDecDigit_def)
  have v: "numberToString (min 360 (max 0 (int (digitsValue 10 ''900'')))) 10 = ''360''"
    by (simp add: digitsValue_def digitNat_def digitValue_def numberToString_360)
  have b: "\<not> (\<exists>ds. ds \<noteq> [] \<and> list_all isDecDigit ds \<and> ''90 deg'' = ds @ ''deg'')"
  proof
    assume "\<exists>ds. ds \<noteq> [] \<and> list_all isDecDigit ds \<and> ''90 deg'' = ds @ ''deg''"
    then obtain ds where h: "list_all isDecDigit ds" and e: "''90 deg'' = ds @ ''deg''" by blast
    from e have "ds = ''90 ''" by simp
    with h show False by (simp add: isDecDigit_def)
  qed
  show ?thesis
    using sanitize_degrees[of "''900''" "''90 deg''"] a b v by simp
qed

section \<open>The compiled theme\<close>

lemma themeCSS_declares_bg:
  "strIncludes (themeCSS bg dv dt lv lt ba ta) (''--custom-theme-background: '' @ bg @ '' !important;'')"
proof -
  have "themeCSS bg dv dt lv lt ba ta =
      ([CHR 0x0A] @ ''    .'' @ THEME_CLASS_NAME @ '' {'' @ [CHR 0x0A] @ ''        '') @
      (''--custom-theme-background: '' @ bg @ '' !important;'') @
      ([CHR 0x0A] @ ''        --custom-theme-base-color-dark: '' @ dv @ '' !important;'' @ [CHR 0x0A] @ ''        --custom-theme-text-color-dark: '' @ dt @ '' !important;'' @ [CHR 0x0A] @ ''        --custom-theme-base-color-light: '' @ lv @ '' !important;'' @ [CHR 0x0A] @ ''        --custom-theme-text-color-light: '' @ lt @ '' !important;'' @ [CHR 0x0A] @ ''        --custom-theme-base-color-amount: '' @ ba @ ''%;'' @ [CHR 0x0A] @ ''        --custom-theme-text-color-amount: '' @ ta @ ''%;'' @ [CHR 0x0A] @ ''    }'' @ [CHR 0x0A] @ ''    body { '' @ [CHR 0x0A] @ ''      background: var(--custom-theme-background); '' @ [CHR 0x0A] @ ''    }'' @ [CHR 0x0A] @ ''  '')"
    by (simp add: themeCSS_def)
  then show ?thesis by (simp only: strIncludes_mid)
qed

lemma themeCSS_declares_dv:
  "strIncludes (themeCSS bg dv dt lv lt ba ta) (''--custom-theme-base-color-dark: '' @ dv @ '' !important;'')"
proof -
  have "themeCSS bg dv dt lv lt ba ta =
      ([CHR 0x0A] @ ''    .'' @ THEME_CLASS_NAME @ '' {'' @ [CHR 0x0A] @ ''        --custom-theme-background: '' @ bg @ '' !important;'' @ [CHR 0x0A] @ ''        '') @
      (''--custom-theme-base-color-dark: '' @ dv @ '' !important;'') @
      ([CHR 0x0A] @ ''        --custom-theme-text-color-dark: '' @ dt @ '' !important;'' @ [CHR 0x0A] @ ''        --custom-theme-base-color-light: '' @ lv @ '' !important;'' @ [CHR 0x0A] @ ''        --custom-theme-text-color-light: '' @ lt @ '' !important;'' @ [CHR 0x0A] @ ''        --custom-theme-base-color-amount: '' @ ba @ ''%;'' @ [CHR 0x0A] @ ''        --custom-theme-text-color-amount: '' @ ta @ ''%;'' @ [CHR 0x0A] @ ''    }'' @ [CHR 0x0A] @ ''    body { '' @ [CHR 0x0A] @ ''      background: var(--custom-theme-background); '' @ [CHR 0x0A] @ ''    }'' @ [CHR 0x0A] @ ''  '')"
    by (simp add: themeCSS_def)
  then show ?thesis by (simp only: strIncludes_mid)
qed

lemma themeCSS_declares_lv:
  "strIncludes (themeCSS bg dv dt lv lt ba ta) (''--custom-theme-base-color-light: '' @ lv @ '' !important;'')"
proof -
  have "themeCSS bg dv dt lv lt ba ta =
      ([CHR 0x0A] @ ''    .'' @ THEME_CLASS_NAME @ '' {'' @ [CHR 0x0A] @ ''        --custom-theme-background: '' @ bg @ '' !important;'' @ [CHR 0x0A] @ ''        --custom-theme-base-color-dark: '' @ dv @ '' !important;'' @ [CHR 0x0A] @ ''        --custom-theme-text-color-dark: '' @ dt @ '' !important;'' @ [CHR 0x0A] @ ''        '') @
      (''--custom-theme-base-color-light: '' @ lv @ '' !important;'') @
      ([CHR 0x0A] @ ''        --custom-theme-text-color-light: '' @ lt @ '' !important;'' @ [CHR 0x0A] @ ''        --custom-theme-base-color-amount: '' @ ba @ ''%;'' @ [CHR 0x0A] @ ''        --custom-theme-text-color-amount: '' @ ta @ ''%;'' @ [CHR 0x0A] @ ''    }'' @ [CHR 0x0A] @ ''    body { '' @ [CHR 0x0A] @ ''      background: var(--custom-theme-background); '' @ [CHR 0x0A] @ ''    }'' @ [CHR 0x0A] @ ''  '')"
    by (simp add: themeCSS_def)
  then show ?thesis by (simp only: strIncludes_mid)
qed

lemma themeCSS_declares_ba:
  "strIncludes (themeCSS bg dv dt lv lt ba ta) (''--custom-theme-base-color-amount: '' @ ba @ ''%;'')"
proof -
  have "themeCSS bg dv dt lv lt ba ta =
      ([CHR 0x0A] @ ''    .'' @ THEME_CLASS_NAME @ '' {'' @ [CHR 0x0A] @ ''        --custom-theme-background: '' @ bg @ '' !important;'' @ [CHR 0x0A] @ ''        --custom-theme-base-color-dark: '' @ dv @ '' !important;'' @ [CHR 0x0A] @ ''        --custom-theme-text-color-dark: '' @ dt @ '' !important;'' @ [CHR 0x0A] @ ''        --custom-theme-base-color-light: '' @ lv @ '' !important;'' @ [CHR 0x0A] @ ''        --custom-theme-text-color-light: '' @ lt @ '' !important;'' @ [CHR 0x0A] @ ''        '') @
      (''--custom-theme-base-color-amount: '' @ ba @ ''%;'') @
      ([CHR 0x0A] @ ''        --custom-theme-text-color-amount: '' @ ta @ ''%;'' @ [CHR 0x0A] @ ''    }'' @ [CHR 0x0A] @ ''    body { '' @ [CHR 0x0A] @ ''      background: var(--custom-theme-background); '' @ [CHR 0x0A] @ ''    }'' @ [CHR 0x0A] @ ''  '')"
    by (simp add: themeCSS_def)
  then show ?thesis by (simp only: strIncludes_mid)
qed

lemma themeCSS_declares_ta:
  "strIncludes (themeCSS bg dv dt lv lt ba ta) (''--custom-theme-text-color-amount: '' @ ta @ ''%;'')"
proof -
  have "themeCSS bg dv dt lv lt ba ta =
      ([CHR 0x0A] @ ''    .'' @ THEME_CLASS_NAME @ '' {'' @ [CHR 0x0A] @ ''        --custom-theme-background: '' @ bg @ '' !important;'' @ [CHR 0x0A] @ ''        --custom-theme-base-color-dark: '' @ dv @ '' !important;'' @ [CHR 0x0A] @ ''        --custom-theme-text-color-dark: '' @ dt @ '' !important;'' @ [CHR 0x0A] @ ''        --custom-theme-base-color-light: '' @ lv @ '' !important;'' @ [CHR 0x0A] @ ''        --custom-theme-text-color-light: '' @ lt @ '' !important;'' @ [CHR 0x0A] @ ''        --custom-theme-base-color-amount: '' @ ba @ ''%;'' @ [CHR 0x0A] @ ''        '') @
      (''--custom-theme-text-color-amount: '' @ ta @ ''%;'') @
      ([CHR 0x0A] @ ''    }'' @ [CHR 0x0A] @ ''    body { '' @ [CHR 0x0A] @ ''      background: var(--custom-theme-background); '' @ [CHR 0x0A] @ ''    }'' @ [CHR 0x0A] @ ''  '')"
    by (simp add: themeCSS_def)
  then show ?thesis by (simp only: strIncludes_mid)
qed

lemma generateThemeCSS_nonempty:
  assumes "colorsToUse config rnd = c # cs"
  shows "generateThemeCSS config doc rnd =
           themeCSS (backgroundValue (direction config rnd) (c # cs) c)
             (adjustColor c (- 35)) (getTextColor (adjustColor c (- 35)))
             (adjustColor c 130) (getTextColor (adjustColor c 130))
             (baseColorAmount (detectThemeMode doc = Dark))
             (textColorAmount (detectThemeMode doc = Dark))"
  by (simp add: generateThemeCSS_def Let_def assms)

lemma generateThemeCSS_empty:
  assumes "colorsToUse config rnd = []"
  shows "generateThemeCSS config doc rnd = ''''"
  by (simp add: generateThemeCSS_def assms)

lemma mode_of_classes:
  "detectThemeMode \<lparr>classList = [''theme-dark''], hasHead = True, styleElement = None\<rparr> = Dark"
  "detectThemeMode \<lparr>classList = [], hasHead = True, styleElement = None\<rparr> = Dark"
  "detectThemeMode \<lparr>classList = [''theme-light''], hasHead = True, styleElement = None\<rparr> = Light"
  by (simp_all add: detectThemeMode_def className_def startsWith_def)

lemma amounts:
  "baseColorAmount True = ''70.4''" "textColorAmount True = ''30''"
  "baseColorAmount False = ''15.2''" "textColorAmount False = ''40''"
  by (simp_all add: baseColorAmount_def textColorAmount_def numberToString_def
      natToString.simps digitChar_def)

lemma variants_213220:
  "adjustColor ''#213220'' (- 35) = ''#000f00''"
  "adjustColor ''#213220'' 130 = ''#a3b4a2''"
proof -
  have v: "isHexColor ''#213220''"
    by (simp add: isHexColor_def hexBody_def startsWith_def isHexDigit_def)
  show "adjustColor ''#213220'' (- 35) = ''#000f00''"
    unfolding adjustColor_eq_spec[OF v]
    by (simp add: spec_adjust_def channel_def hexBody_def startsWith_def digitsValue_def
        digitNat_def digitValue_def clampByte_def hexByte_def digitChar_def)
  show "adjustColor ''#213220'' 130 = ''#a3b4a2''"
    unfolding adjustColor_eq_spec[OF v]
    by (simp add: spec_adjust_def channel_def hexBody_def startsWith_def digitsValue_def
        digitNat_def digitValue_def clampByte_def hexByte_def digitChar_def)
qed

lemma textColors_213220:
  "getTextColor ''#000f00'' = ''#ffffff''"
  "getTextColor ''#a3b4a2'' = ''#000000''"
proof -
  have v: "isHexColor ''#000f00''" "startsWith ''#000f00'' ''#''"
    "isHexColor ''#a3b4a2''" "startsWith ''#a3b4a2'' ''#''"
    by (simp_all add: isHexColor_def hexBody_def startsWith_def isHexDigit_def)
  show "getTextColor ''#000f00'' = ''#ffffff''"
    unfolding getTextColor_hex[OF v(1,2)]
    by (simp add: specLuminance_def channel_def hexBody_def startsWith_def digitsValue_def
        digitNat_def digitValue_def)
  show "getTextColor ''#a3b4a2'' = ''#000000''"
    unfolding getTextColor_hex[OF v(3,4)]
    by (simp add: specLuminance_def channel_def hexBody_def startsWith_def digitsValue_def
        digitNat_def digitValue_def)
qed

lemma example_compiled:
  assumes "colorCount config = 2" "colors config = [''#213220'', ''#344e41'']"
    "gradientDirection config = ''90deg''" "\<not> useRandomColors config"
  shows "generateThemeCSS config doc rnd =
           themeCSS ''linear-gradient(90deg, #213220, #344e41)''
             ''#000f00'' ''#ffffff'' ''#a3b4a2'' ''#000000''
             (baseColorAmount (detectThemeMode doc = Dark))
             (textColorAmount (detectThemeMode doc = Dark))"
proof -
  have c: "colorsToUse config rnd = [''#213220'', ''#344e41'']"
    using assms by (simp add: colorsToUse_def sliceTo_def)
  have d: "direction config rnd = ''90deg''"
    using assms by (simp add: direction_def sanitize_90)
  show ?thesis
    unfolding generateThemeCSS_nonempty[OF c] d variants_213220 textColors_213220
    by (simp add: backgroundValue_def)
qed

text \<open>
  C3. When the resolved colour list is a single colour, the background value of the
  compiled text is that colour; when it has a first colour \<open>c\<close>, a second \<open>c'\<close> and
  possibly more, the background value is \<open>linear-gradient(\<close>direction\<open>, \<close>colours\<open>)\<close>
  with the colours joined by a comma and a blank in the order of the list, \<open>c\<close> first.
  In both cases the compiled text declares \<open>--custom-theme-background\<close> with that value.
\<close>

theorem background_value:
  "(colorsToUse config rnd = [c] \<longrightarrow>
      generateThemeCSS config doc rnd =
        themeCSS c
          (adjustColor c (- 35)) (getTextColor (adjustColor c (- 35)))
          (adjustColor c 130) (getTextColor (adjustColor c 130))
          (baseColorAmount (detectThemeMode doc = Dark))
          (textColorAmount (detectThemeMode doc = Dark))
      \<and> strIncludes (generateThemeCSS config doc rnd)
            (''--custom-theme-background: '' @ c @ '' !important;''))
   \<and> (colorsToUse config rnd = c # c' # cs \<longrightarrow>
      generateThemeCSS config doc rnd =
        themeCSS
          (''linear-gradient('' @ direction config rnd @ '', ''
             @ c @ '', '' @ joinWith '', '' (c' # cs) @ '')'')
          (adjustColor c (- 35)) (getTextColor (adjustColor c (- 35)))
          (adjustColor c 130) (getTextColor (adjustColor c 130))
          (baseColorAmount (detectThemeMode doc = Dark))
          (textColorAmount (detectThemeMode doc = Dark))
      \<and> strIncludes (generateThemeCSS config doc rnd)
            (''--custom-theme-background: ''
               @ (''linear-gradient('' @ direction config rnd @ '', ''
                    @ joinWith '', '' (c # c' # cs) @ '')'')
               @ '' !important;''))"
proof (intro conjI impI)
  assume one: "colorsToUse config rnd = [c]"
  show g1: "generateThemeCSS config doc rnd =
        themeCSS c
          (adjustColor c (- 35)) (getTextColor (adjustColor c (- 35)))
          (adjustColor c 130) (getTextColor (adjustColor c 130))
          (baseColorAmount (detectThemeMode doc = Dark))
          (textColorAmount (detectThemeMode doc = Dark))"
    by (simp add: generateThemeCSS_nonempty[OF one] backgroundValue_def)
  show "strIncludes (generateThemeCSS config doc rnd)
            (''--custom-theme-background: '' @ c @ '' !important;'')"
    unfolding g1 by (rule themeCSS_declares_bg)
next
  assume many: "colorsToUse config rnd = c # c' # cs"
  show g2: "generateThemeCSS config doc rnd =
        themeCSS
          (''linear-gradient('' @ direction config rnd @ '', ''
             @ c @ '', '' @ joinWith '', '' (c' # cs) @ '')'')
          (adjustColor c (- 35)) (getTextColor (adjustColor c (- 35)))
          (adjustColor c 130) (getTextColor (adjustColor c 130))
          (baseColorAmount (detectThemeMode doc = Dark))
          (textColorAmount (detectThemeMode doc = Dark))"
    by (simp add: generateThemeCSS_nonempty[OF many] backgroundValue_def)
  show "strIncludes (generateThemeCSS config doc rnd)
            (''--custom-theme-background: ''
               @ (''linear-gradient('' @ direction config rnd @ '', ''
                    @ joinWith '', '' (c # c' # cs) @ '')'')
               @ '' !important;'')"
    unfolding g2
    using themeCSS_declares_bg[of "''linear-gradient('' @ direction config rnd @ '', ''
             @ c @ '', '' @ joinWith '', '' (c' # cs) @ '')''"]
    by simp
qed

theorem background_value_witness:
  "colorsToUse \<lparr>colorCount = 1, colors = [''#213220'', ''#344e41''],
        gradientDirection = ''90deg'', useRandomColors = False\<rparr> (constRandom 0) = [''#213220'']
   \<and> strIncludes (generateThemeCSS \<lparr>colorCount = 1, colors = [''#213220'', ''#344e41''],
        gradientDirection = ''90deg'', useRandomColors = False\<rparr>
        \<lparr>classList = [], hasHead = True, styleElement = None\<rparr> (constRandom 0))
        ''--custom-theme-background: #213220 !important;''
   \<and> colorsToUse \<lparr>colorCount = 2, colors = [''#213220'', ''#344e41''],
        gradientDirection = ''90deg'', useRandomColors = False\<rparr> (constRandom 0)
        = [''#213220'', ''#344e41'']
   \<and> strIncludes (generateThemeCSS \<lparr>colorCount = 2, colors = [''#213220'', ''#344e41''],
        gradientDirection = ''90deg'', useRandomColors = False\<rparr>
        \<lparr>classList = [], hasHead = True, styleElement = None\<rparr> (constRandom 0))
        ''--custom-theme-background: linear-gradient(90deg, #213220, #344e41) !important;''"
proof -
  let ?c1 = "\<lparr>colorCount = 1, colors = [''#213220'', ''#344e41''],
        gradientDirection = ''90deg'', useRandomColors = False\<rparr>"
  let ?c2 = "\<lparr>colorCount = 2, colors = [''#213220'', ''#344e41''],
        gradientDirection = ''90deg'', useRandomColors = False\<rparr>"
  let ?d = "\<lparr>classList = [], hasHead = True, styleElement = None\<rparr>"
  have a: "colorsToUse ?c1 (constRandom 0) = [''#213220'']"
    by (simp add: colorsToUse_def sliceTo_def)
  have b: "colorsToUse ?c2 (constRandom 0) = [''#213220'', ''#344e41'']"
    by (simp add: colorsToUse_def sliceTo_def)
  have d: "direction ?c2 (constRandom 0) = ''90deg''"
    by (simp add: direction_def sanitize_90)
  have w1: "strIncludes (generateThemeCSS ?c1 ?d (constRandom 0))
      (''--custom-theme-background: '' @ ''#213220'' @ '' !important;'')"
    using background_value[of ?c1 "constRandom 0" "''#213220''" ?d] a by blast
  have w2: "strIncludes (generateThemeCSS ?c2 ?d (constRandom 0))
      (''--custom-theme-background: ''
         @ (''linear-gradient('' @ direction ?c2 (constRandom 0) @ '', ''
              @ joinWith '', '' [''#213220'', ''#344e41''] @ '')'')
         @ '' !important;'')"
    using background_value[of ?c2 "constRandom 0" "''#213220''" ?d "''#344e41''" "[]"] b by blast
  have w1': "strIncludes (generateThemeCSS ?c1 ?d (constRandom 0))
      ''--custom-theme-background: #213220 !important;''"
    using w1 by simp
  have w2': "strIncludes (generateThemeCSS ?c2 ?d (constRandom 0))
      ''--custom-theme-background: linear-gradient(90deg, #213220, #344e41) !important;''"
    using w2 unfolding d by simp
  show ?thesis using a b w1' w2' by blast
qed

text \<open>
  C4. When the resolved colour list is empty, \<open>generateThemeCSS\<close> returns the empty
  string. \<open>applyTheme\<close> does not skip the apply then: where the document has a head, it
  puts the empty text into the style element, creating the element if it is missing and
  replacing what it held, and adds the activation class. No rule is emitted, but the
  document is changed.
\<close>

theorem empty_palette_compiles_empty:
  assumes "colorsToUse config rnd = []"
  shows "generateThemeCSS config doc rnd = ''''
     \<and> (hasHead doc \<longrightarrow>
           applyTheme config rnd doc =
             doc\<lparr>styleElement := Some '''',
                 classList := classListAdd THEME_CLASS_NAME (classList doc)\<rparr>)
     \<and> (\<not> hasHead doc \<longrightarrow> applyTheme config rnd doc = doc)"
  by (simp add: generateThemeCSS_empty[OF assms] applyTheme_def)

theorem empty_palette_compiles_empty_witness:
  "colorsToUse \<lparr>colorCount = 2, colors = [], gradientDirection = ''90deg'',
       useRandomColors = False\<rparr> (constRandom 0) = []
   \<and> generateThemeCSS \<lparr>colorCount = 2, colors = [], gradientDirection = ''90deg'',
       useRandomColors = False\<rparr>
       \<lparr>classList = [''theme-dark''], hasHead = True, styleElement = Some ''body {}''\<rparr>
       (constRandom 0) = ''''
   \<and> hasHead \<lparr>classList = [''theme-dark''], hasHead = True, styleElement = Some ''body {}''\<rparr>
   \<and> applyTheme \<lparr>colorCount = 2, colors = [], gradientDirection = ''90deg'',
       useRandomColors = False\<rparr> (constRandom 0)
       \<lparr>classList = [''theme-dark''], hasHead = True, styleElement = Some ''body {}''\<rparr>
     = \<lparr>classList = [''theme-dark'', ''custom-theme-background''], hasHead = True,
         styleElement = Some ''''\<rparr>"
proof -
  have e: "colorsToUse \<lparr>colorCount = 2, colors = [], gradientDirection = ''90deg'',
       useRandomColors = False\<rparr> (constRandom 0) = []"
    by (simp add: colorsToUse_def sliceTo_def)
  show ?thesis
    using empty_palette_compiles_empty[OF e,
        of "\<lparr>classList = [''theme-dark''], hasHead = True, styleElement = Some ''body {}''\<rparr>"] e
    by (simp add: classListAdd_def THEME_CLASS_NAME_def)
qed

text \<open>
  Read with the apply as a no-op, C4 fails: with no colour configured, \<open>applyTheme\<close> on a
  themed document replaces the style text by the empty text and adds the class.
\<close>

theorem empty_apply_not_noop:
  "\<not> (colorsToUse \<lparr>colorCount = 2, colors = [], gradientDirection = ''90deg'',
          useRandomColors = False\<rparr> (constRandom 0) = []
       \<longrightarrow> generateThemeCSS \<lparr>colorCount = 2, colors = [], gradientDirection = ''90deg'',
          useRandomColors = False\<rparr>
          \<lparr>classList = [''theme-dark''], hasHead = True, styleElement = Some ''body {}''\<rparr>
          (constRandom 0) = ''''
        \<and> applyTheme \<lparr>colorCount = 2, colors = [], gradientDirection = ''90deg'',
          useRandomColors = False\<rparr> (constRandom 0)
          \<lparr>classList = [''theme-dark''], hasHead = True, styleElement = Some ''body {}''\<rparr>
        = \<lparr>classList = [''theme-dark''], hasHead = True, styleElement = Some ''body {}''\<rparr>)"
  by (simp add: colorsToUse_def sliceTo_def applyTheme_def generateThemeCSS_def
      classListAdd_def THEME_CLASS_NAME_def)

text \<open>
  C5. For the two colours \<open>#213220\<close> and \<open>#344e41\<close> with direction \<open>90deg\<close>, the compiled
  text is the template filled with the background
  \<open>linear-gradient(90deg, #213220, #344e41)\<close>, the dark variant
  \<open>adjustColor #213220 (-35) = #000f00\<close> and the light variant
  \<open>adjustColor #213220 130 = #a3b4a2\<close>. Under a dark host the two amounts are \<open>70.4%\<close>
  and \<open>30%\<close>, under a light host \<open>15.2%\<close> and \<open>40%\<close>, and the text contains each of these
  declarations.
\<close>

theorem compiled_two_colours:
  assumes "colorCount config = 2" "colors config = [''#213220'', ''#344e41'']"
    "gradientDirection config = ''90deg''" "\<not> useRandomColors config"
  shows "adjustColor ''#213220'' (- 35) = ''#000f00'' \<and> adjustColor ''#213220'' 130 = ''#a3b4a2''
    \<and> strIncludes (generateThemeCSS config doc rnd)
          ''--custom-theme-background: linear-gradient(90deg, #213220, #344e41) !important;''
    \<and> strIncludes (generateThemeCSS config doc rnd)
          (''--custom-theme-base-color-dark: '' @ adjustColor ''#213220'' (- 35) @ '' !important;'')
    \<and> strIncludes (generateThemeCSS config doc rnd)
          (''--custom-theme-base-color-light: '' @ adjustColor ''#213220'' 130 @ '' !important;'')
    \<and> (detectThemeMode doc = Dark \<longrightarrow>
          generateThemeCSS config doc rnd =
            themeCSS ''linear-gradient(90deg, #213220, #344e41)''
              ''#000f00'' ''#ffffff'' ''#a3b4a2'' ''#000000'' ''70.4'' ''30''
          \<and> strIncludes (generateThemeCSS config doc rnd) ''--custom-theme-base-color-amount: 70.4%;''
          \<and> strIncludes (generateThemeCSS config doc rnd) ''--custom-theme-text-color-amount: 30%;'')
    \<and> (detectThemeMode doc = Light \<longrightarrow>
          generateThemeCSS config doc rnd =
            themeCSS ''linear-gradient(90deg, #213220, #344e41)''
              ''#000f00'' ''#ffffff'' ''#a3b4a2'' ''#000000'' ''15.2'' ''40''
          \<and> strIncludes (generateThemeCSS config doc rnd) ''--custom-theme-base-color-amount: 15.2%;''
          \<and> strIncludes (generateThemeCSS config doc rnd) ''--custom-theme-text-color-amount: 40%;'')"
proof -
  note g = example_compiled[OF assms, of doc rnd]
  have bg: "strIncludes (generateThemeCSS config doc rnd)
          ''--custom-theme-background: linear-gradient(90deg, #213220, #344e41) !important;''"
    unfolding g
    using themeCSS_declares_bg[of "''linear-gradient(90deg, #213220, #344e41)''"] by simp
  have dv: "strIncludes (generateThemeCSS config doc rnd)
          (''--custom-theme-base-color-dark: '' @ adjustColor ''#213220'' (- 35) @ '' !important;'')"
    unfolding g variants_213220 by (rule themeCSS_declares_dv)
  have lv: "strIncludes (generateThemeCSS config doc rnd)
          (''--custom-theme-base-color-light: '' @ adjustColor ''#213220'' 130 @ '' !important;'')"
    unfolding g variants_213220 by (rule themeCSS_declares_lv)
  have dark: "generateThemeCSS config doc rnd =
            themeCSS ''linear-gradient(90deg, #213220, #344e41)''
              ''#000f00'' ''#ffffff'' ''#a3b4a2'' ''#000000'' ''70.4'' ''30''
          \<and> strIncludes (generateThemeCSS config doc rnd) ''--custom-theme-base-color-amount: 70.4%;''
          \<and> strIncludes (generateThemeCSS config doc rnd) ''--custom-theme-text-color-amount: 30%;''"
    if m: "detectThemeMode doc = Dark"
  proof -
    have e: "generateThemeCSS config doc rnd =
            themeCSS ''linear-gradient(90deg, #213220, #344e41)''
              ''#000f00'' ''#ffffff'' ''#a3b4a2'' ''#000000'' ''70.4'' ''30''"
      unfolding g by (simp add: m amounts)
    show ?thesis
      unfolding e
      using themeCSS_declares_ba[of _ _ _ _ _ "''70.4''"] themeCSS_declares_ta[of _ _ _ _ _ _ "''30''"]
      by simp
  qed
  have light: "generateThemeCSS config doc rnd =
            themeCSS ''linear-gradient(90deg, #213220, #344e41)''
              ''#000f00'' ''#ffffff'' ''#a3b4a2'' ''#000000'' ''15.2'' ''40''
          \<and> strIncludes (generateThemeCSS config doc rnd) ''--custom-theme-base-color-amount: 15.2%;''
          \<and> strIncludes (generateThemeCSS config doc rnd) ''--custom-theme-text-color-amount: 40%;''"
    if m: "detectThemeMode doc = Light"
  proof -
    have e: "generateThemeCSS config doc rnd =
            themeCSS ''linear-gradient(90deg, #213220, #344e41)''
              ''#000f00'' ''#ffffff'' ''#a3b4a2'' ''#000000'' ''15.2'' ''40''"
      unfolding g by (simp add: m amounts)
    show ?thesis
      unfolding e
      using themeCSS_declares_ba[of _ _ _ _ _ "''15.2''"] themeCSS_declares_ta[of _ _ _ _ _ _ "''40''"]
      by simp
  qed
  show ?thesis
    using variants_213220 bg dv lv dark light by blast
qed

theorem compiled_two_colours_witness:
  "detectThemeMode \<lparr>classList = [''theme-dark''], hasHead = True, styleElement = None\<rparr> = Dark
   \<and> generateThemeCSS
        \<lparr>colorCount = 2, colors = [''#213220'', ''#344e41''],
          gradientDirection = ''90deg'', useRandomColors = False\<rparr>
        \<lparr>classList = [''theme-dark''], hasHead = True, styleElement = None\<rparr> (constRandom 0)
      = themeCSS ''linear-gradient(90deg, #213220, #344e41)''
          ''#000f00'' ''#ffffff'' ''#a3b4a2'' ''#000000'' ''70.4'' ''30''
   \<and> detectThemeMode \<lparr>classList = [''theme-light''], hasHead = True, styleElement = None\<rparr> = Light
   \<and> generateThemeCSS
        \<lparr>colorCount = 2, colors = [''#213220'', ''#344e41''],
          gradientDirection = ''90deg'', useRandomColors = False\<rparr>
        \<lparr>classList = [''theme-light''], hasHead = True, styleElement = None\<rparr> (constRandom 0)
      = themeCSS ''linear-gradient(90deg, #213220, #344e41)''
          ''#000f00'' ''#ffffff'' ''#a3b4a2'' ''#000000'' ''15.2'' ''40''"
  using compiled_two_colours[of
      "\<lparr>colorCount = 2, colors = [''#213220'', ''#344e41''],
          gradientDirection = ''90deg'', useRandomColors = False\<rparr>"
      "\<lparr>classList = [''theme-dark''], hasHead = True, styleElement = None\<rparr>" "constRandom 0"]
    compiled_two_colours[of
      "\<lparr>colorCount = 2, colors = [''#213220'', ''#344e41''],
          gradientDirection = ''90deg'', useRandomColors = False\<rparr>"
      "\<lparr>classList = [''theme-light''], hasHead = True, styleElement = None\<rparr>" "constRandom 0"]
    mode_of_classes
  by simp

text \<open>
  C10. With \<open>useRandomColors\<close> off, the compiled text depends on the configuration and
  the host mode only: two compilations of the same configuration under the same host
  mode give the same text, whatever the random numbers and the rest of the document are.
\<close>

theorem compile_deterministic:
  assumes "\<not> useRandomColors config" "detectThemeMode doc = detectThemeMode doc'"
  shows "generateThemeCSS config doc rnd = generateThemeCSS config doc' rnd'"
proof -
  have c: "colorsToUse config rnd = colorsToUse config rnd'"
    using assms(1) by (simp add: colorsToUse_def)
  have d: "direction config rnd = direction config rnd'"
    using assms(1) by (simp add: direction_def)
  show ?thesis
    unfolding generateThemeCSS_def c d assms(2) by (rule refl)
qed

theorem compile_deterministic_witness:
  "\<not> useRandomColors \<lparr>colorCount = 2, colors = [''#213220'', ''#344e41''],
          gradientDirection = ''90deg'', useRandomColors = False\<rparr>
   \<and> detectThemeMode \<lparr>classList = [''theme-dark''], hasHead = True, styleElement = None\<rparr>
       = detectThemeMode \<lparr>classList = [], hasHead = True, styleElement = None\<rparr>
   \<and> generateThemeCSS \<lparr>colorCount = 2, colors = [''#213220'', ''#344e41''],
          gradientDirection = ''90deg'', useRandomColors = False\<rparr>
        \<lparr>classList = [''theme-dark''], hasHead = True, styleElement = None\<rparr> (constRandom 0)
     = generateThemeCSS \<lparr>colorCount = 2, colors = [''#213220'', ''#344e41''],
          gradientDirection = ''90deg'', useRandomColors = False\<rparr>
        \<lparr>classList = [], hasHead = True, styleElement = None\<rparr> (constRandom (1 / 2))"
proof -
  have m: "detectThemeMode \<lparr>classList = [''theme-dark''], hasHead = True, styleElement = None\<rparr>
       = detectThemeMode \<lparr>classList = [], hasHead = True, styleElement = None\<rparr>"
    by (simp add: mode_of_classes)
  show ?thesis
    using compile_deterministic[OF _ m,
        of "\<lparr>colorCount = 2, colors = [''#213220'', ''#344e41''],
          gradientDirection = ''90deg'', useRandomColors = False\<rparr>" "constRandom 0" "constRandom (1 / 2)"] m
    by simp
qed

section \<open>Random palettes\<close>

lemma floor_scaled_range:
  assumes "0 \<le> u" "u < 1" "0 < (m::int)"
  shows "0 \<le> \<lfloor>u * real_of_int m\<rfloor>" "\<lfloor>u * real_of_int m\<rfloor> < m"
proof -
  show "0 \<le> \<lfloor>u * real_of_int m\<rfloor>" using assms by simp
  have "u * real_of_int m < 1 * real_of_int m"
    using assms by (intro mult_strict_right_mono) simp_all
  then show "\<lfloor>u * real_of_int m\<rfloor> < m" by (simp add: floor_less_iff)
qed

lemma randomColor_fixedHex:
  assumes "0 \<le> u" "u < 1"
  shows "randomColor u = CHR ''#'' # fixedHex 6 (nat \<lfloor>u * 16777215\<rfloor>)"
    and "nat \<lfloor>u * 16777215\<rfloor> < 16777215"
proof -
  let ?m = "\<lfloor>u * 16777215\<rfloor>"
  have rng: "0 \<le> ?m" "?m < 16777215"
    using floor_scaled_range[OF assms, of 16777215] by simp_all
  show lt: "nat ?m < 16777215" using rng by linarith
  have p: "(16::nat) ^ Suc 5 = 16777216" by simp
  have lt': "nat ?m < 16 ^ Suc 5" unfolding p using lt by linarith
  have "numberToString ?m 16 = natToString 16 (nat ?m)"
    using rng by (simp add: numberToString_def)
  then show "randomColor u = CHR ''#'' # fixedHex 6 (nat ?m)"
    using padStart_natToString[OF lt'] by (simp add: randomColor_def)
qed

lemma randomColor_not_white:
  assumes "0 \<le> u" "u < 1"
  shows "randomColor u \<noteq> ''#ffffff''"
proof
  assume w: "randomColor u = ''#ffffff''"
  let ?n = "nat \<lfloor>u * 16777215\<rfloor>"
  have lt: "?n < 16 ^ 6" using randomColor_fixedHex(2)[OF assms] by simp
  have "fixedHex 6 ?n = ''ffffff''"
    using w randomColor_fixedHex(1)[OF assms] by simp
  then have "digitsValue 16 (fixedHex 6 ?n) = digitsValue 16 ''ffffff''" by simp
  then have "?n = 16777215"
    unfolding digitsValue_fixedHex[OF lt]
    by (simp add: digitsValue_def digitNat_def digitValue_def)
  then show False using randomColor_fixedHex(2)[OF assms] by simp
qed

lemma random_palette_shape:
  assumes "useRandomColors config" "\<forall>k. 0 \<le> rnd k \<and> rnd k < 1"
  shows "length (colorsToUse config rnd) = nat (colorCount config)"
    and "\<forall>c\<in>set (colorsToUse config rnd). isHexColor c \<and> startsWith c ''#''"
    and "\<exists>k. 0 \<le> k \<and> k < 360 \<and> direction config rnd = numberToString k 10 @ ''deg''"
proof -
  show "length (colorsToUse config rnd) = nat (colorCount config)"
    using assms(1) by (simp add: colorsToUse_def)
  have v: "isHexColor (randomColor u) \<and> startsWith (randomColor u) ''#''" if "0 \<le> u" "u < 1" for u
  proof -
    let ?n = "nat \<lfloor>u * 16777215\<rfloor>"
    have e: "randomColor u = CHR ''#'' # fixedHex 6 ?n" by (rule randomColor_fixedHex(1)[OF that])
    have six: "(6::nat) = Suc (Suc (Suc (Suc (Suc (Suc 0)))))" by simp
    have d: "isHexDigit (digitChar (k mod 16))" for k by (rule digitChar_facts(1)) simp
    have "length (fixedHex 6 ?n) = 6 \<and> list_all isHexDigit (fixedHex 6 ?n)"
      unfolding six by (simp add: d)
    then show ?thesis unfolding e by (simp add: isHexColor_def hexBody_def startsWith_def)
  qed
  show "\<forall>c\<in>set (colorsToUse config rnd). isHexColor c \<and> startsWith c ''#''"
    using assms v by (auto simp: colorsToUse_def)
  let ?k = "\<lfloor>rnd (nat (colorCount config)) * 360\<rfloor>"
  have "0 \<le> ?k \<and> ?k < 360"
    using floor_scaled_range[of "rnd (nat (colorCount config))" 360] assms(2) by simp
  moreover have "direction config rnd = numberToString ?k 10 @ ''deg''"
    using assms(1) by (simp add: direction_def)
  ultimately show "\<exists>k. 0 \<le> k \<and> k < 360 \<and> direction config rnd = numberToString k 10 @ ''deg''"
    by blast
qed

text \<open>The channel-wise generator of \<open>content.js\<close> reaches white.\<close>

lemma legacy_randomHexColor_white:
  "randomHexColor (255 / 256) (255 / 256) (255 / 256) = ''#ffffff''"
proof -
  have s: "jsShl 1 24 = 16777216" "jsShl 255 16 = 16711680" "jsShl 255 8 = 65280"
    by (simp_all add: jsShl_def stb31_id push_bit_eq_mult)
  have n: "numberToString 33554431 16 = ''1ffffff''"
    by (simp add: numberToString_def natToString.simps digitChar_def)
  show ?thesis by (simp add: randomHexColor_def s n)
qed

text \<open>
  C2. With \<open>useRandomColors\<close> set, every colour of the resolved palette is
  \<open>#\<close> followed by the six-digit form of \<open>\<lfloor>u \<times> 16777215\<rfloor>\<close> for a random \<open>u\<close> in \<open>[0, 1)\<close>.
  That number is at most \<open>16777214\<close>, so the colour \<open>#ffffff\<close> is never generated,
  whatever the random numbers are: the palette does not range over all 24-bit colours.
  (The channel-wise \<open>randomHexColor\<close> of the first version of the script does reach it.)
\<close>

theorem random_palette_never_white:
  "useRandomColors config \<and> (\<forall>k. 0 \<le> rnd k \<and> rnd k < 1)
     \<longrightarrow> ''#ffffff'' \<notin> set (colorsToUse config rnd)"
proof (intro impI notI)
  assume h: "useRandomColors config \<and> (\<forall>k. 0 \<le> rnd k \<and> rnd k < 1)"
    and w: "''#ffffff'' \<in> set (colorsToUse config rnd)"
  from h w obtain i where "randomColor (rnd i) = ''#ffffff''"
    by (auto simp: colorsToUse_def)
  moreover have "0 \<le> rnd i" "rnd i < 1" using h by simp_all
  ultimately show False using randomColor_not_white by blast
qed

theorem random_palette_never_white_witness:
  "useRandomColors \<lparr>colorCount = 1, colors = [], gradientDirection = ''90deg'', useRandomColors = True\<rparr>
     \<and> (\<forall>k. 0 \<le> constRandom (1 / 2) k \<and> constRandom (1 / 2) k < 1)
     \<and> colorsToUse \<lparr>colorCount = 1, colors = [], gradientDirection = ''90deg'', useRandomColors = True\<rparr>
          (constRandom (1 / 2)) = [''#7fffff'']
     \<and> ''#ffffff'' \<notin> set (colorsToUse
          \<lparr>colorCount = 1, colors = [], gradientDirection = ''90deg'', useRandomColors = True\<rparr> (constRandom (1 / 2)))"
proof -
  have n: "numberToString 8388607 16 = ''7fffff''"
    by (simp add: numberToString_def natToString.simps digitChar_def)
  have c: "randomColor (1 / 2) = ''#7fffff''"
    by (simp add: randomColor_def n padStart_def)
  show ?thesis
    using random_palette_never_white[of
        "\<lparr>colorCount = 1, colors = [], gradientDirection = ''90deg'', useRandomColors = True\<rparr>"
        "constRandom (1 / 2)"]
    by (simp add: colorsToUse_def constRandom_def c)
qed

section \<open>Keeping the theme\<close>

text \<open>
  C1. The observer's callback restores less than a full re-apply. When the activation
  class is missing from the root and the style element is in the document, the callback
  adds the class and touches nothing else: the style element keeps its text, which is
  the text of the last apply, with no new compilation and no new random numbers. When
  the style element is missing, or the class is present, the callback changes nothing.
  So after \<open>applyTheme\<close> on a document with a head, if the host replaces the class list by
  one without the activation class, one callback brings the class back and the style
  text is still the one compiled at that apply.
\<close>

theorem observer_restores_class:
  "(THEME_CLASS_NAME \<notin> set (classList doc) \<and> styleElement doc = Some css \<longrightarrow>
      persistenceObserver doc = doc\<lparr>classList := classList doc @ [THEME_CLASS_NAME]\<rparr>
      \<and> THEME_CLASS_NAME \<in> set (classList (persistenceObserver doc))
      \<and> styleElement (persistenceObserver doc) = Some css)
   \<and> (styleElement doc = None \<or> THEME_CLASS_NAME \<in> set (classList doc) \<longrightarrow>
      persistenceObserver doc = doc)
   \<and> (hasHead doc \<and> THEME_CLASS_NAME \<notin> set cl \<longrightarrow>
      THEME_CLASS_NAME \<in> set (classList (persistenceObserver
          ((applyTheme config rnd doc)\<lparr>classList := cl\<rparr>)))
      \<and> styleElement (persistenceObserver ((applyTheme config rnd doc)\<lparr>classList := cl\<rparr>))
          = Some (generateThemeCSS config doc rnd))"
  by (auto simp: persistenceObserver_def classListAdd_def applyTheme_def)

theorem observer_restores_class_witness:
  "THEME_CLASS_NAME \<notin> set (classList \<lparr>classList = [''theme-dark''], hasHead = True,
        styleElement = Some ''x''\<rparr>)
   \<and> styleElement \<lparr>classList = [''theme-dark''], hasHead = True, styleElement = Some ''x''\<rparr>
       = Some ''x''
   \<and> persistenceObserver \<lparr>classList = [''theme-dark''], hasHead = True, styleElement = Some ''x''\<rparr>
       = \<lparr>classList = [''theme-dark'', ''custom-theme-background''], hasHead = True,
           styleElement = Some ''x''\<rparr>
   \<and> persistenceObserver \<lparr>classList = [''theme-dark''], hasHead = True, styleElement = None\<rparr>
       = \<lparr>classList = [''theme-dark''], hasHead = True, styleElement = None\<rparr>"
  using observer_restores_class[of
      "\<lparr>classList = [''theme-dark''], hasHead = True, styleElement = Some ''x''\<rparr>" "''x''"]
    observer_restores_class[of
      "\<lparr>classList = [''theme-dark''], hasHead = True, styleElement = None\<rparr>"]
  by (simp add: THEME_CLASS_NAME_def)

text \<open>
  As it is stated, with the style element restored as well, C1 fails: on a document
  without the style element and without the activation class the callback restores
  neither.
\<close>

theorem observer_leaves_style_missing:
  "\<not> ((THEME_CLASS_NAME \<notin> set (classList
            \<lparr>classList = [''theme-dark''], hasHead = True, styleElement = None\<rparr>)
         \<or> styleElement \<lparr>classList = [''theme-dark''], hasHead = True, styleElement = None\<rparr>
            = None)
        \<longrightarrow> THEME_CLASS_NAME \<in> set (classList (persistenceObserver
            \<lparr>classList = [''theme-dark''], hasHead = True, styleElement = None\<rparr>))
          \<and> styleElement (persistenceObserver
            \<lparr>classList = [''theme-dark''], hasHead = True, styleElement = None\<rparr>) \<noteq> None)"
  by (simp add: persistenceObserver_def THEME_CLASS_NAME_def)

end
